theory Spec2Isabelle
  imports Complex_Main "HOL-Library.Sublist" "HOL-Library.AList"
begin

section \<open>Python values\<close>

text \<open>
  The handlers work on parsed JSON and on Python dictionaries. A dictionary is an
  association list with unique keys in insertion order; item assignment is
  \<^const>\<open>AList.update\<close>, which overwrites in place or appends.
\<close>

datatype pyval =
    PNone
  | PBool bool
  | PInt int
  | PStr string
  | PList "pyval list"
  | PDict "(string \<times> pyval) list"

type_synonym dict = "(string \<times> pyval) list"

datatype py_error =
    RuntimeError string
  | KeyError string
  | ValueError string
  | AttributeError string
  | TypeError string
  | TransportError string
  | HTTPStatusError nat
  | ValidationError "string list"

text \<open>Decimal digits of a natural number, for \<open>str\<close> of an integer.\<close>

fun digits :: "nat \<Rightarrow> string" where
  "digits n = (if n < 10 then [char_of (48 + n)] else digits (n div 10) @ [char_of (48 + n mod 10)])"

text \<open>
  \<open>str(v)\<close>, which is also what an f-string interpolates. The rendering of lists and
  dictionaries is not modelled (it is left empty); no property below depends on it.
\<close>

fun py_str :: "pyval \<Rightarrow> string" where
  "py_str PNone = ''None''"
| "py_str (PBool b) = (if b then ''True'' else ''False'')"
| "py_str (PInt i) = (if i < 0 then CHR ''-'' # digits (nat (- i)) else digits (nat i))"
| "py_str (PStr s) = s"
| "py_str (PList xs) = []"
| "py_str (PDict d) = []"

text \<open>Truth value of an object, as \<open>if x\<close> and \<open>not x\<close> test it.\<close>

fun truthy :: "pyval \<Rightarrow> bool" where
  "truthy PNone = False"
| "truthy (PBool b) = b"
| "truthy (PInt i) = (i \<noteq> 0)"
| "truthy (PStr s) = (s \<noteq> [])"
| "truthy (PList xs) = (xs \<noteq> [])"
| "truthy (PDict d) = (d \<noteq> [])"

text \<open>\<open>d.get(k)\<close>: the value, or \<open>None\<close> when the key is absent.\<close>

definition dict_get :: "dict \<Rightarrow> string \<Rightarrow> pyval" where
  "dict_get d k = (case map_of d k of None \<Rightarrow> PNone | Some v \<Rightarrow> v)"

text \<open>\<open>d[k]\<close>: raises \<open>KeyError\<close> when the key is absent.\<close>

definition dict_item :: "dict \<Rightarrow> string \<Rightarrow> py_error + pyval" where
  "dict_item d k = (case map_of d k of None \<Rightarrow> Inl (KeyError k) | Some v \<Rightarrow> Inr v)"

text \<open>\<open>k in d\<close> for a dictionary \<open>d\<close>.\<close>

definition dict_has :: "('k \<times> 'v) list \<Rightarrow> 'k \<Rightarrow> bool" where
  "dict_has d k = (k \<in> set (map fst d))"

text \<open>\<open>d.update(e)\<close>: assigns the items of \<open>e\<close> in order.\<close>

definition dict_update :: "('k \<times> 'v) list \<Rightarrow> ('k \<times> 'v) list \<Rightarrow> ('k \<times> 'v) list" where
  "dict_update d e = fold (\<lambda>(k, v) acc. AList.update k v acc) e d"

text \<open>
  \<open>s.replace(old, new)\<close>: every non-overlapping occurrence of \<open>old\<close>, found from the
  left, is replaced; an empty \<open>old\<close> matches before every character and at the end.
\<close>

function py_replace :: "string \<Rightarrow> string \<Rightarrow> string \<Rightarrow> string" where
  "py_replace s old new =
     (if old = [] then (case s of [] \<Rightarrow> new | c # cs \<Rightarrow> new @ c # py_replace cs old new)
      else if s = [] then []
      else if prefix old s then new @ py_replace (drop (length old) s) old new
      else hd s # py_replace (tl s) old new)"
  by pat_completeness auto
termination
  by (relation "measure (\<lambda>(s, old, new). length s)") auto

declare py_replace.simps [simp del]

section \<open>Data model\<close>

text \<open>
  Modelled from the spec: the pydantic models \<open>Form\<close>, \<open>Question\<close>, \<open>WebHook\<close>,
  \<open>FormResponse\<close>, \<open>AntiSpam\<close> of \<open>backend.models\<close> are not part of the sources at
  hand. The records carry the fields the spec's data model lists and the handlers read.
\<close>

record question =
  q_id :: string
  required :: bool
  q_data :: dict

record webhook =
  wh_url :: string
  wh_message :: "string option"

record form =
  f_id :: string
  f_name :: string
  f_questions :: "question list"
  f_features :: "string list"
  f_webhook :: "webhook option"
  f_discord_role :: "string option"
  f_dm_message :: "string option"

record antispam =
  ip_hash :: string
  user_agent_hash :: string
  captcha_pass :: bool

record form_response =
  r_id :: string
  r_user :: "dict option"
  r_antispam :: "antispam option"
  r_response :: dict
  r_form_id :: string
  r_timestamp :: string

text \<open>
  Modelled from the spec: the values of the \<open>FormFeatures\<close> enumeration of
  \<open>backend.constants\<close>, which is not part of the sources at hand. The lookup filter of
  the handler spells \<open>OPEN\<close> out as a literal.
\<close>

definition DISABLE_ANTISPAM :: string where "DISABLE_ANTISPAM = ''DISABLE_ANTISPAM''"
definition REQUIRES_LOGIN :: string where "REQUIRES_LOGIN = ''REQUIRES_LOGIN''"
definition COLLECT_EMAIL :: string where "COLLECT_EMAIL = ''COLLECT_EMAIL''"
definition WEBHOOK_ENABLED :: string where "WEBHOOK_ENABLED = ''WEBHOOK_ENABLED''"

text \<open>
  Modelled from the spec: \<open>Request.user\<close>. The authentication backend is not part of
  the sources at hand; the spec describes the acting user as a variant, anonymous or
  authenticated, the latter with its raw claims, a display name and an optional mention
  handle.
\<close>

datatype acting_user =
    Anonymous
  | Authenticated dict string "string option"

text \<open>Attribute reads on the user raise \<open>AttributeError\<close> where the attribute is missing.\<close>

fun user_discord_mention :: "acting_user \<Rightarrow> py_error + string" where
  "user_discord_mention Anonymous = Inl (AttributeError ''discord_mention'')"
| "user_discord_mention (Authenticated p n None) = Inl (AttributeError ''discord_mention'')"
| "user_discord_mention (Authenticated p n (Some m)) = Inr m"

fun user_payload :: "acting_user \<Rightarrow> py_error + dict" where
  "user_payload Anonymous = Inl (AttributeError ''payload'')"
| "user_payload (Authenticated p n m) = Inr p"

text \<open>
  Modelled from the spec: one grading outcome, the named tuple returned by
  \<open>execute_unittest\<close> (module \<open>unittesting\<close>, not part of the sources at hand).
\<close>

record test_result =
  passed :: bool
  return_code :: int
  diagnostic :: pyval

section \<open>The outside world\<close>

record http_request =
  http_method :: string
  url :: string
  json :: "pyval option"
  headers :: "(string \<times> string) list"
  params :: dict

text \<open>
  Response headers are looked up under the name the code writes (httpx ignores the case
  of header names; the model keeps one spelling). The body of a response is its parsed
  JSON.
\<close>

record http_response =
  status_code :: nat
  resp_headers :: "(string \<times> string) list"
  resp_json :: pyval

text \<open>
  Effects are recorded in a trace, oldest first: a request put on the wire, a suspension
  of the task, a document handed to \<open>insert_one\<close>.
\<close>

datatype event =
    Sent http_request
  | Slept rat
  | Inserted form_response

type_synonym world = "event list"

fun sent_requests :: "world \<Rightarrow> http_request list" where
  "sent_requests [] = []"
| "sent_requests (Sent r # w) = r # sent_requests w"
| "sent_requests (Slept d # w) = sent_requests w"
| "sent_requests (Inserted d # w) = sent_requests w"

fun inserted :: "world \<Rightarrow> form_response list" where
  "inserted [] = []"
| "inserted (Inserted d # w) = d # inserted w"
| "inserted (Sent r # w) = inserted w"
| "inserted (Slept d # w) = inserted w"

text \<open>
  What the handlers take from their environment: the remote servers (a server answers
  the last request of the list, knowing all requests sent before it, with a response or
  a transport failure), library functions (\<open>urllib.parse.urljoin\<close>, \<open>float\<close>, the
  hex digest of MD5, \<open>uuid4\<close>), the constants of \<open>backend.constants\<close>, the stored
  forms, the clock used for the timestamp of a response, and the grading service
  \<open>execute_unittest\<close>.
\<close>

record env =
  server :: "http_request list \<Rightarrow> py_error + http_response"
  urljoin :: "string \<Rightarrow> string \<Rightarrow> string"
  py_float :: "string \<Rightarrow> rat option"
  md5_hexdigest :: "string \<Rightarrow> string"
  uuid4 :: string
  now :: string
  DISCORD_BOT_TOKEN :: string
  FRONTEND_URL :: string
  HCAPTCHA_API_SECRET :: string
  db_forms :: "form list"
  execute_unittest :: "form_response \<Rightarrow> form \<Rightarrow> py_error + test_result list"

text \<open>
  \<open>Response.raise_for_status\<close> of httpx, as released when the code was written: client
  and server error statuses raise \<open>HTTPStatusError\<close>, every other status returns.
\<close>

definition raise_for_status :: "http_response \<Rightarrow> py_error + http_response" where
  "raise_for_status resp =
     (if 400 \<le> status_code resp \<and> status_code resp < 600
      then Inl (HTTPStatusError (status_code resp)) else Inr resp)"

section \<open>discord.py: the rate-limited client\<close>

definition API_BASE_URL :: string where
  "API_BASE_URL = ''https://discord.com/api/v8/''"

definition DISCORD_HEADERS :: "env \<Rightarrow> (string \<times> string) list" where
  "DISCORD_HEADERS e = [(''Authorization'', ''Bot '' @ DISCORD_BOT_TOKEN e)]"

text \<open>
  \<open>request = client.request(...)\<close> creates a coroutine object; nothing is sent yet.
  \<open>await request\<close> runs it: the request goes on the wire and the server's answer (or
  the transport failure) is the result. A coroutine object runs once: awaiting it again
  raises \<open>RuntimeError\<close>, and nothing is sent. The flag says whether the coroutine has
  been awaited.
\<close>

definition await_request ::
  "env \<Rightarrow> http_request \<Rightarrow> bool \<Rightarrow> world \<Rightarrow> (py_error + http_response) \<times> bool \<times> world" where
  "await_request e request awaited w =
     (if awaited then (Inl (RuntimeError ''cannot reuse already awaited coroutine''), awaited, w)
      else (server e (sent_requests (w @ [Sent request])), True, w @ [Sent request]))"

text \<open>
  The \<open>while resp.status_code == 429\<close> loop, entered with the response of the first
  await, followed by \<open>resp.raise_for_status()\<close> and \<open>return resp\<close>.
\<close>

function handle_rate_limits ::
  "env \<Rightarrow> http_request \<Rightarrow> bool \<Rightarrow> http_response \<Rightarrow> world \<Rightarrow> (py_error + http_response) \<times> world" where
  "handle_rate_limits e request awaited resp w =
     (if status_code resp = 429 then
        (case map_of (resp_headers resp) ''X-Ratelimit-Reset-After'' of
           None \<Rightarrow> (Inl (KeyError ''X-Ratelimit-Reset-After''), w)
         | Some h \<Rightarrow>
            (case py_float e h of
               None \<Rightarrow> (Inl (ValueError h), w)
             | Some retry_after \<Rightarrow>
                (case await_request e request awaited (w @ [Slept retry_after]) of
                   (Inl err, awaited', w') \<Rightarrow> (Inl err, w')
                 | (Inr resp', awaited', w') \<Rightarrow> handle_rate_limits e request awaited' resp' w')))
      else (raise_for_status resp, w))"
  by pat_completeness auto
termination
  by (relation "measure (\<lambda>(e, request, awaited, resp, w). if awaited then 0 else 1)")
     (auto simp: await_request_def split: if_splits)

declare handle_rate_limits.simps [simp del]

definition make_request ::
  "env \<Rightarrow> string \<Rightarrow> string \<Rightarrow> pyval option \<Rightarrow> (string \<times> string) list option \<Rightarrow> world
     \<Rightarrow> (py_error + http_response) \<times> world" where
  "make_request e meth u js hdrs w =
     (let u' = urljoin e API_BASE_URL u;
          hs = dict_update (DISCORD_HEADERS e)
                 (case hdrs of None \<Rightarrow> [] | Some h \<Rightarrow> (if h \<noteq> [] then h else []));
          request = \<lparr>http_method = meth, url = u', json = js, headers = hs, params = []\<rparr>
      in case await_request e request False w of
           (Inl err, awaited, w') \<Rightarrow> (Inl err, w')
         | (Inr resp, awaited, w') \<Rightarrow> handle_rate_limits e request awaited resp w')"


section \<open>discord.py: message context and formatting\<close>

definition build_ctx_variables :: "form \<Rightarrow> form_response \<Rightarrow> acting_user \<Rightarrow> dict" where
  "build_ctx_variables form response user =
     (let mention = (case user_discord_mention user of Inl err \<Rightarrow> ''User'' | Inr m \<Rightarrow> m)
      in [(''user'', PStr mention),
          (''response_id'', PStr (r_id response)),
          (''form'', PStr (f_name form)),
          (''form_id'', PStr (f_id form)),
          (''time'', PStr (r_timestamp response))])"

text \<open>The loop over \<open>ctx.items()\<close>, in the insertion order of the dictionary.\<close>

fun format_message :: "dict \<Rightarrow> string \<Rightarrow> string" where
  "format_message [] message = message"
| "format_message ((key, val) # ctx) message =
     format_message ctx (py_replace message (''{'' @ key @ ''}'') (py_str val))"

section \<open>discord.py: webhook notification\<close>

text \<open>
  The author block of the embed, written the same way in both implementations. The case
  distinction on the user is the test \<open>request_user.is_authenticated\<close>; \<open>user\<close> is
  \<open>response.user\<close>.
\<close>

definition embed_author :: "form_response \<Rightarrow> acting_user \<Rightarrow> dict \<Rightarrow> dict" where
  "embed_author response request_user embed0 =
     (case request_user of
        Anonymous \<Rightarrow> embed0
      | Authenticated p display_name m \<Rightarrow>
          (let author = [(''name'', PStr display_name)];
               author' = (case r_user response of
                   None \<Rightarrow> author
                 | Some user \<Rightarrow>
                     if truthy (dict_get user ''avatar'')
                     then AList.update ''icon_url''
                            (PStr (''https://cdn.discordapp.com/avatars/'' @ py_str (dict_get user ''id'')
                                   @ ''/'' @ py_str (dict_get user ''avatar'') @ ''.png'')) author
                     else author)
           in AList.update ''author'' (PDict author') embed0))"

text \<open>
  Lines 113 to 145 of \<open>send_submission_webhook\<close> in \<open>discord.py\<close>: the embed and the
  hook. The mention is read from the context with \<open>ctx.get("mention")\<close>.
\<close>

definition discord_embed :: "env \<Rightarrow> form \<Rightarrow> form_response \<Rightarrow> acting_user \<Rightarrow> dict" where
  "discord_embed e form response request_user =
     (let ctx = build_ctx_variables form response request_user;
          mention = dict_get ctx ''mention'';
          embed0 = [(''title'', PStr ''New Form Response''),
                   (''description'', PStr (py_str mention @ '' submitted a response to `''
                                           @ f_name form @ ''`.'')),
                   (''url'', PStr (FRONTEND_URL e @ ''/path_to_view_form/'' @ r_id response)),
                   (''timestamp'', PStr (r_timestamp response)),
                   (''color'', PInt 7506394)]
      in embed_author response request_user embed0)"

definition discord_hook :: "env \<Rightarrow> form \<Rightarrow> webhook \<Rightarrow> form_response \<Rightarrow> acting_user \<Rightarrow> dict" where
  "discord_hook e form wh response request_user =
     (let ctx = build_ctx_variables form response request_user;
          hook = [(''embeds'', PList [PDict (discord_embed e form response request_user)]),
                  (''allowed_mentions'', PDict [(''parse'', PList [PStr ''users'', PStr ''roles''])]),
                  (''username'', PStr (if f_name form \<noteq> [] then f_name form
                                       else ''Python Discord Forms''))]
      in case wh_message wh of
           None \<Rightarrow> hook
         | Some message \<Rightarrow>
             if message \<noteq> [] then AList.update ''content'' (PStr (format_message ctx message)) hook
             else hook)"

definition send_submission_webhook ::
  "env \<Rightarrow> form \<Rightarrow> form_response \<Rightarrow> acting_user \<Rightarrow> world \<Rightarrow> (py_error + unit) \<times> world" where
  "send_submission_webhook e form response request_user w =
     (case f_webhook form of
        None \<Rightarrow> (Inl (ValueError ''Got empty webhook.''), w)
      | Some wh \<Rightarrow>
          (case make_request e ''POST'' (wh_url wh)
                  (Some (PDict (discord_hook e form wh response request_user))) None w of
             (Inl err, w') \<Rightarrow> (Inl err, w')
           | (Inr resp, w') \<Rightarrow> (Inr (), w')))"

section \<open>discord.py: direct-message notification\<close>

definition get_direct_message_channel :: "env \<Rightarrow> pyval \<Rightarrow> world \<Rightarrow> (py_error + pyval) \<times> world" where
  "get_direct_message_channel e user_id w =
     (case make_request e ''POST'' ''users/@me/channels''
             (Some (PDict [(''recipient_id'', user_id)])) None w of
        (Inr response, w') \<Rightarrow>
          (case resp_json response of
             PDict d \<Rightarrow> (Inr (dict_get d ''id''), w')
           | other \<Rightarrow> (Inl (AttributeError ''get''), w'))
      | (Inl (HTTPStatusError s), w') \<Rightarrow>
          (if s = 400 then (Inr PNone, w') else (Inl (HTTPStatusError s), w'))
      | (Inl err, w') \<Rightarrow> (Inl err, w'))"

definition send_direct_message ::
  "env \<Rightarrow> form \<Rightarrow> form_response \<Rightarrow> acting_user \<Rightarrow> world \<Rightarrow> (py_error + unit) \<times> world" where
  "send_direct_message e form response user w =
     (case user_payload user of
        Inl err \<Rightarrow> (Inl err, w)
      | Inr p \<Rightarrow>
     (case dict_item p ''id'' of
        Inl err \<Rightarrow> (Inl err, w)
      | Inr uid \<Rightarrow>
     (case get_direct_message_channel e uid w of
        (Inl err, w1) \<Rightarrow> (Inl err, w1)
      | (Inr channel, w1) \<Rightarrow>
          if \<not> truthy channel then (Inr (), w1)
          else
           (case f_dm_message form of
              None \<Rightarrow> (Inl (AttributeError ''replace''), w1)
            | Some template \<Rightarrow>
               (let message = format_message (build_ctx_variables form response user) template
                in case make_request e ''POST'' (''channels/'' @ py_str channel @ ''/messages'')
                          (Some (PDict [(''content'', PStr message)])) None w1 of
                     (Inr resp, w2) \<Rightarrow> (Inr (), w2)
                   | (Inl (HTTPStatusError s), w2) \<Rightarrow>
                       (if s = 403 then (Inr (), w2) else (Inl (HTTPStatusError s), w2))
                   | (Inl err, w2) \<Rightarrow> (Inl err, w2))))))"


section \<open>submit.py: the submission handler\<close>

record request =
  json_body :: dict
  path_form_id :: string
  client_host :: string
  user_agent :: "string option"
  user :: acting_user

text \<open>
  The bodies the handler answers with: \<open>{"error": msg}\<close>, \<open>{"error": "missing_fields",
  "fields": [...]}\<close>, the error list of a \<open>ValidationError\<close>, \<open>{"error":
  "failed_tests", "test_results": [...]}\<close> and \<open>{"form": ..., "response": ...}\<close>.
\<close>

datatype body =
    ErrorBody string
  | MissingFields string "string list"
  | ValidationErrors "string list"
  | FailedTests string "test_result list"
  | Submitted form form_response

text \<open>The background task: \<open>send_submission_webhook\<close> with its three arguments.\<close>

datatype background_task = BackgroundTask form form_response acting_user

record json_response =
  content :: body
  status :: nat
  background :: "background_task option"

datatype 'a step = Raise py_error | Return json_response | Continue 'a

definition HCAPTCHA_VERIFY_URL :: string where
  "HCAPTCHA_VERIFY_URL = ''https://hcaptcha.com/siteverify''"

definition HCAPTCHA_HEADERS :: "(string \<times> string) list" where
  "HCAPTCHA_HEADERS = [(''Content-Type'', ''application/x-www-form-urlencoded'')]"

text \<open>
  Modelled from the spec: the constructor \<open>FormResponse(**response)\<close>. The model class
  is not part of the sources at hand; the spec gives its fields (id, form id, answers,
  optional user claims, optional antispam record of two hashes and a verdict), has the
  timestamp assigned by the server at construction, and has a structural or type
  violation reported per field. Keys that are no field of the model are ignored.
\<close>

fun as_str :: "pyval option \<Rightarrow> string option" where
  "as_str (Some (PStr s)) = Some s"
| "as_str other = None"

fun as_dict :: "pyval option \<Rightarrow> dict option" where
  "as_dict (Some (PDict d)) = Some d"
| "as_dict other = None"

fun as_optional_dict :: "pyval option \<Rightarrow> dict option option" where
  "as_optional_dict None = Some None"
| "as_optional_dict (Some PNone) = Some None"
| "as_optional_dict (Some (PDict d)) = Some (Some d)"
| "as_optional_dict other = None"

fun as_bool :: "pyval option \<Rightarrow> bool option" where
  "as_bool (Some (PBool b)) = Some b"
| "as_bool other = None"

fun as_antispam :: "pyval option \<Rightarrow> antispam option option" where
  "as_antispam None = Some None"
| "as_antispam (Some PNone) = Some None"
| "as_antispam (Some (PDict a)) =
     (case (as_str (map_of a ''ip_hash''), as_str (map_of a ''user_agent_hash''),
            as_bool (map_of a ''captcha_pass'')) of
        (Some i, Some u, Some c) \<Rightarrow>
          Some (Some \<lparr>ip_hash = i, user_agent_hash = u, captcha_pass = c\<rparr>)
      | other \<Rightarrow> None)"
| "as_antispam other = None"

definition FormResponse_init :: "env \<Rightarrow> dict \<Rightarrow> py_error + form_response" where
  "FormResponse_init e d =
     (case (as_str (map_of d ''id''), as_optional_dict (map_of d ''user''),
            as_antispam (map_of d ''antispam''), as_dict (map_of d ''response''),
            as_str (map_of d ''form_id'')) of
        (Some i, Some u, Some a, Some r, Some f) \<Rightarrow>
          Inr \<lparr>r_id = i, r_user = u, r_antispam = a, r_response = r, r_form_id = f,
               r_timestamp = now e\<rparr>
      | other \<Rightarrow>
          Inl (ValidationError
            ((if as_str (map_of d ''id'') = None then [''id''] else [])
             @ (if as_optional_dict (map_of d ''user'') = None then [''user''] else [])
             @ (if as_antispam (map_of d ''antispam'') = None then [''antispam''] else [])
             @ (if as_dict (map_of d ''response'') = None then [''response''] else [])
             @ (if as_str (map_of d ''form_id'') = None then [''form_id''] else []))))"

text \<open>
  \<open>find_one({"_id": form_id, "features": "OPEN"})\<close>: the first stored form with that
  id whose feature list contains \<open>OPEN\<close>. The stored documents are taken as forms, so
  \<open>Form(**form)\<close> is the identity.
\<close>

definition find_one :: "form list \<Rightarrow> string \<Rightarrow> form option" where
  "find_one forms form_id =
     find (\<lambda>f. f_id f = form_id \<and> ''OPEN'' \<in> set (f_features f)) forms"

text \<open>
  Lines 72 to 97: the two digests, the call of the verification service and the
  \<open>antispam\<close> entry of the response. The branch is skipped when the form disables it.
\<close>

definition antispam_enrichment ::
  "env \<Rightarrow> form \<Rightarrow> request \<Rightarrow> dict \<Rightarrow> dict \<Rightarrow> world \<Rightarrow> (py_error + dict) \<times> world" where
  "antispam_enrichment e form req data response w =
     (if DISABLE_ANTISPAM \<notin> set (f_features form) then
        (let ip_hash = md5_hexdigest e (client_host req) in
         case user_agent req of
           None \<Rightarrow> (Inl (KeyError ''User-Agent''), w)
         | Some ua \<Rightarrow>
            (let user_agent_hash = md5_hexdigest e ua;
                 query_params = [(''secret'', PStr (HCAPTCHA_API_SECRET e)),
                                 (''response'', dict_get data ''captcha'')];
                 r = \<lparr>http_method = ''POST'', url = HCAPTCHA_VERIFY_URL, json = None,
                      headers = HCAPTCHA_HEADERS, params = query_params\<rparr>;
                 w' = w @ [Sent r]
             in case server e (sent_requests w') of
                  Inl err \<Rightarrow> (Inl err, w')
                | Inr resp \<Rightarrow>
                   (case raise_for_status resp of
                      Inl err \<Rightarrow> (Inl err, w')
                    | Inr resp' \<Rightarrow>
                       (case resp_json resp' of
                          PDict captcha_data \<Rightarrow>
                            (case dict_item captcha_data ''success'' of
                               Inl err \<Rightarrow> (Inl err, w')
                             | Inr success \<Rightarrow>
                                 (Inr (AList.update ''antispam''
                                         (PDict [(''ip_hash'', PStr ip_hash),
                                                 (''user_agent_hash'', PStr user_agent_hash),
                                                 (''captcha_pass'', success)]) response), w'))
                        | other \<Rightarrow> (Inl (TypeError ''success''), w')))))
      else (Inr response, w))"

text \<open>
  Lines 99 to 113: the login gate. The case distinction on the user is the test
  \<open>request.user.is_authenticated\<close>.
\<close>

definition login_gate :: "form \<Rightarrow> request \<Rightarrow> dict \<Rightarrow> json_response + dict" where
  "login_gate form req response =
     (if REQUIRES_LOGIN \<in> set (f_features form) then
        (case user req of
           Authenticated payload n m \<Rightarrow>
             (if COLLECT_EMAIL \<in> set (f_features form) \<and> \<not> dict_has payload ''email''
              then Inl \<lparr>content = ErrorBody ''email_required'', status = 400, background = None\<rparr>
              else Inr (AList.update ''user'' (PDict payload) response))
         | Anonymous \<Rightarrow>
             Inl \<lparr>content = ErrorBody ''missing_discord_data'', status = 400, background = None\<rparr>)
      else Inr response)"

text \<open>
  Lines 115 to 121: the loop over the questions, on the dictionary of answers
  \<open>response["response"]\<close> (updated in place) and the list \<open>missing_fields\<close>.
\<close>

fun check_questions :: "question list \<Rightarrow> dict \<Rightarrow> string list \<Rightarrow> dict \<times> string list" where
  "check_questions [] answers missing_fields = (answers, missing_fields)"
| "check_questions (q # qs) answers missing_fields =
     (if \<not> dict_has answers (q_id q) then
        (if \<not> required q then check_questions qs (AList.update (q_id q) PNone answers) missing_fields
         else check_questions qs answers (missing_fields @ [q_id q]))
      else check_questions qs answers missing_fields)"

text \<open>
  The loop reads \<open>response["response"]\<close> once per question, so a form without questions
  never reads it. The request validation in front of the handler only lets a dictionary
  through under that key; any other value ends in \<open>TypeError\<close> here.
\<close>

definition complete_fields :: "form \<Rightarrow> dict \<Rightarrow> py_error + dict \<times> string list" where
  "complete_fields form response =
     (if f_questions form = [] then Inr (response, [])
      else (case dict_item response ''response'' of
              Inl err \<Rightarrow> Inl err
            | Inr (PDict answers) \<Rightarrow>
                (case check_questions (f_questions form) answers [] of
                   (answers', missing_fields) \<Rightarrow>
                     Inr (AList.update ''response'' (PDict answers') response, missing_fields))
            | Inr other \<Rightarrow> Inl (TypeError ''response'')))"

text \<open>Lines 134 to 151: the grading gate.\<close>

definition run_unittests :: "env \<Rightarrow> form \<Rightarrow> form_response \<Rightarrow> unit step" where
  "run_unittests e form response_obj =
     (let has_unittests = list_ex (\<lambda>question. dict_has (q_data question) ''unittests'')
                            (f_questions form)
      in if has_unittests then
           (case execute_unittest e response_obj form of
              Inl err \<Rightarrow> Raise err
            | Inr unittest_results \<Rightarrow>
                (let was_successful = list_all passed unittest_results
                 in if \<not> was_successful then
                      (let status_code = (if list_ex (\<lambda>test. return_code test = 99) unittest_results
                                          then 500 else 403)
                       in Return \<lparr>content = FailedTests ''failed_tests''
                                     (filter (\<lambda>test. \<not> passed test) unittest_results),
                                   status = status_code, background = None\<rparr>)
                    else Continue ()))
         else Continue ())"

text \<open>
  Lines 60 to 62: the parsed body, with the \<open>timestamp\<close> key set to \<open>None\<close>. The handler
  reads the body as sent; the request validation in front of it requires the key
  \<open>response\<close> with a dictionary and lets further keys through.
\<close>

definition request_data :: "request \<Rightarrow> dict" where
  "request_data req = AList.update ''timestamp'' PNone (json_body req)"

text \<open>Lines 68 to 70: the copy of the body with a fresh id and the id of the form.\<close>

definition response_shell :: "env \<Rightarrow> form \<Rightarrow> request \<Rightarrow> dict" where
  "response_shell e form req =
     AList.update ''form_id'' (PStr (f_id form))
       (AList.update ''id'' (PStr (uuid4 e)) (request_data req))"

definition post :: "env \<Rightarrow> request \<Rightarrow> world \<Rightarrow> (py_error + json_response) \<times> world" where
  "post e req w =
     (let data = request_data req in
      case find_one (db_forms e) (path_form_id req) of
        None \<Rightarrow>
          (Inr \<lparr>content = ErrorBody ''Open form not found'', status = 404, background = None\<rparr>, w)
      | Some form \<Rightarrow>
         (let response = response_shell e form req
          in case antispam_enrichment e form req data response w of
               (Inl err, w1) \<Rightarrow> (Inl err, w1)
             | (Inr response1, w1) \<Rightarrow>
            (case login_gate form req response1 of
               Inl early \<Rightarrow> (Inr early, w1)
             | Inr response2 \<Rightarrow>
            (case complete_fields form response2 of
               Inl err \<Rightarrow> (Inl err, w1)
             | Inr (response3, missing_fields) \<Rightarrow>
                 if missing_fields \<noteq> [] then
                   (Inr \<lparr>content = MissingFields ''missing_fields'' missing_fields,
                         status = 400, background = None\<rparr>, w1)
                 else
                  (case FormResponse_init e response3 of
                     Inl (ValidationError errors) \<Rightarrow>
                       (Inr \<lparr>content = ValidationErrors errors, status = 422,
                             background = None\<rparr>, w1)
                   | Inl err \<Rightarrow> (Inl err, w1)
                   | Inr response_obj \<Rightarrow>
                      (case run_unittests e form response_obj of
                         Raise err \<Rightarrow> (Inl err, w1)
                       | Return failed \<Rightarrow> (Inr failed, w1)
                       | Continue u \<Rightarrow>
                          (let w2 = w1 @ [Inserted response_obj];
                               send_webhook =
                                 (if WEBHOOK_ENABLED \<in> set (f_features form)
                                  then Some (BackgroundTask form response_obj (user req))
                                  else None)
                           in (Inr \<lparr>content = Submitted form response_obj, status = 200,
                                    background = send_webhook\<rparr>, w2))))))))"

section \<open>submit.py: the handler's own webhook notification\<close>

definition submit_embed :: "env \<Rightarrow> form \<Rightarrow> form_response \<Rightarrow> acting_user \<Rightarrow> dict" where
  "submit_embed e form response request_user =
     (let mention = (case user_discord_mention request_user of Inl err \<Rightarrow> ''User'' | Inr m \<Rightarrow> m);
          embed0 = [(''title'', PStr ''New Form Response''),
                    (''description'', PStr (mention @ '' submitted a response to `''
                                            @ f_name form @ ''`.'')),
                    (''url'', PStr (FRONTEND_URL e @ ''/path_to_view_form/'' @ r_id response)),
                    (''timestamp'', PStr (r_timestamp response)),
                    (''color'', PInt 7506394)]
      in embed_author response request_user embed0)"

definition submit_hook :: "env \<Rightarrow> form \<Rightarrow> webhook \<Rightarrow> form_response \<Rightarrow> acting_user \<Rightarrow> dict" where
  "submit_hook e form wh response request_user =
     (let mention = (case user_discord_mention request_user of Inl err \<Rightarrow> ''User'' | Inr m \<Rightarrow> m);
          hook = [(''embeds'', PList [PDict (submit_embed e form response request_user)]),
                  (''allowed_mentions'', PDict [(''parse'', PList [PStr ''users'', PStr ''roles''])]),
                  (''username'', PStr (if f_name form \<noteq> [] then f_name form
                                       else ''Python Discord Forms''))]
      in case wh_message wh of
           None \<Rightarrow> hook
         | Some message \<Rightarrow>
             if message \<noteq> [] then
               (let ctx = [(''user'', PStr mention),
                           (''response_id'', PStr (r_id response)),
                           (''form'', PStr (f_name form)),
                           (''form_id'', PStr (f_id form)),
                           (''time'', PStr (r_timestamp response))];
                    message' = fold (\<lambda>key msg. py_replace msg (''{'' @ key @ ''}'')
                                                   (py_str (dict_get ctx key)))
                                 (map fst ctx) message
                in AList.update ''content''
                     (PStr (py_replace message' ''_USER_MENTION_'' mention)) hook)
             else hook)"

definition SubmitForm_send_submission_webhook ::
  "env \<Rightarrow> form \<Rightarrow> form_response \<Rightarrow> acting_user \<Rightarrow> world \<Rightarrow> (py_error + unit) \<times> world" where
  "SubmitForm_send_submission_webhook e form response request_user w =
     (case f_webhook form of
        None \<Rightarrow> (Inl (ValueError ''Got empty webhook.''), w)
      | Some wh \<Rightarrow>
          (let r = \<lparr>http_method = ''POST'', url = wh_url wh,
                    json = Some (PDict (submit_hook e form wh response request_user)),
                    headers = [], params = []\<rparr>;
               w' = w @ [Sent r]
           in case server e (sent_requests w') of
                Inl err \<Rightarrow> (Inl err, w')
              | Inr resp \<Rightarrow>
                 (case raise_for_status resp of
                    Inl err \<Rightarrow> (Inl err, w')
                  | Inr resp' \<Rightarrow> (Inr (), w'))))"

text \<open>Running the task scheduled by the handler, after the response has been sent.\<close>

fun run_background :: "env \<Rightarrow> background_task \<Rightarrow> world \<Rightarrow> (py_error + unit) \<times> world" where
  "run_background e (BackgroundTask form response request_user) w =
     SubmitForm_send_submission_webhook e form response request_user w"


section \<open>Scenarios\<close>

text \<open>
  Concrete environments and inputs on which the handlers are run below. The stand-in
  for \<open>urljoin\<close> keeps an absolute URL and appends a relative one to the base.
\<close>

definition test_env ::
  "(http_request list \<Rightarrow> py_error + http_response) \<Rightarrow> form list
     \<Rightarrow> (form_response \<Rightarrow> form \<Rightarrow> py_error + test_result list) \<Rightarrow> env" where
  "test_env srv forms grader =
     \<lparr>server = srv,
      urljoin = (\<lambda>base u. if prefix ''https://'' u then u else base @ u),
      py_float = (\<lambda>s. if s = ''0.2'' then Some (1 / 5) else None),
      md5_hexdigest = (\<lambda>s. ''md5:'' @ s),
      uuid4 = ''uuid-1'',
      now = ''2021-01-01T00:00:00'',
      DISCORD_BOT_TOKEN = ''token'',
      FRONTEND_URL = ''https://forms.example'',
      HCAPTCHA_API_SECRET = ''secret'',
      db_forms = forms,
      execute_unittest = grader\<rparr>"

definition reply :: "nat \<Rightarrow> py_error + http_response" where
  "reply code = Inr \<lparr>status_code = code, resp_headers = [], resp_json = PDict [(''id'', PStr ''7'')]\<rparr>"

text \<open>A server that answers the first request with 429 and a wait of 0.2, then 200.\<close>

definition retry_server :: "http_request list \<Rightarrow> py_error + http_response" where
  "retry_server reqs =
     (if length reqs = 1
      then Inr \<lparr>status_code = 429, resp_headers = [(''X-Ratelimit-Reset-After'', ''0.2'')],
                resp_json = PNone\<rparr>
      else reply 200)"

definition no_grader :: "form_response \<Rightarrow> form \<Rightarrow> py_error + test_result list" where
  "no_grader r f = Inr []"

definition survey_hook :: webhook where
  "survey_hook = \<lparr>wh_url = ''https://hooks.example/1'', wh_message = None\<rparr>"

definition survey :: form where
  "survey = \<lparr>f_id = ''survey'', f_name = ''Survey'', f_questions = [],
             f_features = [''OPEN'', ''WEBHOOK_ENABLED'', ''DISABLE_ANTISPAM''],
             f_webhook = Some survey_hook,
             f_discord_role = None, f_dm_message = Some ''Thanks {user}''\<rparr>"

definition survey_response :: form_response where
  "survey_response = \<lparr>r_id = ''uuid-1'', r_user = None, r_antispam = None, r_response = [],
                       r_form_id = ''survey'', r_timestamp = ''2021-01-01T00:00:00''\<rparr>"

definition ada :: acting_user where
  "ada = Authenticated [(''id'', PStr ''42'')] ''Ada#0001'' (Some ''<@42>'')"

text \<open>\<open>sep.join(segs)\<close>, to speak about the occurrences of a placeholder in a template.\<close>

fun join :: "string \<Rightarrow> string list \<Rightarrow> string" where
  "join sep [] = []"
| "join sep [x] = x"
| "join sep (x # y # ys) = x @ sep @ join sep (y # ys)"

definition captcha_server :: "http_request list \<Rightarrow> py_error + http_response" where
  "captcha_server reqs =
     Inr \<lparr>status_code = 200, resp_headers = [], resp_json = PDict [(''success'', PBool True)]\<rparr>"

definition submission :: "string \<Rightarrow> dict \<Rightarrow> acting_user \<Rightarrow> request" where
  "submission fid data u =
     \<lparr>json_body = data, path_form_id = fid, client_host = ''192.0.2.1'',
      user_agent = Some ''Mozilla/5.0'', user = u\<rparr>"

definition feedback :: form where
  "feedback = \<lparr>f_id = ''feedback'', f_name = ''Feedback'',
               f_questions = [\<lparr>q_id = ''q1'', required = True, q_data = []\<rparr>,
                              \<lparr>q_id = ''q2'', required = False, q_data = []\<rparr>],
               f_features = [''OPEN''], f_webhook = None, f_discord_role = None,
               f_dm_message = None\<rparr>"

definition shadowed :: form where
  "shadowed = \<lparr>f_id = ''shadowed'', f_name = ''Shadowed'',
               f_questions = [\<lparr>q_id = ''a'', required = False, q_data = []\<rparr>,
                              \<lparr>q_id = ''a'', required = True, q_data = []\<rparr>],
               f_features = [''OPEN'', ''DISABLE_ANTISPAM''], f_webhook = None,
               f_discord_role = None, f_dm_message = None\<rparr>"

definition members_only :: form where
  "members_only = \<lparr>f_id = ''members'', f_name = ''Members'',
                   f_questions = [\<lparr>q_id = ''q1'', required = True, q_data = []\<rparr>],
                   f_features = [''OPEN'', ''REQUIRES_LOGIN'', ''DISABLE_ANTISPAM''],
                   f_webhook = None, f_discord_role = None, f_dm_message = None\<rparr>"

definition unhooked :: form where
  "unhooked = \<lparr>f_id = ''unhooked'', f_name = ''Unhooked'', f_questions = [],
               f_features = [''OPEN'', ''WEBHOOK_ENABLED'', ''DISABLE_ANTISPAM''],
               f_webhook = None, f_discord_role = None, f_dm_message = None\<rparr>"

definition quiz :: form where
  "quiz = \<lparr>f_id = ''quiz'', f_name = ''Quiz'',
           f_questions = [\<lparr>q_id = ''c1'', required = True, q_data = [(''unittests'', PDict [])]\<rparr>,
                          \<lparr>q_id = ''c2'', required = True, q_data = [(''unittests'', PDict [])]\<rparr>],
           f_features = [''OPEN'', ''DISABLE_ANTISPAM''], f_webhook = None,
           f_discord_role = None, f_dm_message = None\<rparr>"

definition grader :: "int \<Rightarrow> form_response \<Rightarrow> form \<Rightarrow> py_error + test_result list" where
  "grader code r f =
     Inr [\<lparr>passed = True, return_code = 0, diagnostic = PStr ''c1''\<rparr>,
          \<lparr>passed = (code = 0), return_code = code, diagnostic = PStr ''c2''\<rparr>]"


definition dm_server :: "nat \<Rightarrow> http_request list \<Rightarrow> py_error + http_response" where
  "dm_server code reqs = (if length reqs = 1 then reply 200 else reply code)"

text \<open>
  A form in which no required question shares its id with a non-required question that
  comes before it: the condition under which filling an absent optional answer cannot
  hide a missing required one.
\<close>

fun no_shadowing :: "question list \<Rightarrow> bool" where
  "no_shadowing [] = True"
| "no_shadowing (q # qs) =
     ((\<not> required q \<longrightarrow> (\<forall>q' \<in> set qs. required q' \<longrightarrow> q_id q' \<noteq> q_id q)) \<and> no_shadowing qs)"

section \<open>Properties of the trace\<close>

lemma sent_requests_append: "sent_requests (w @ v) = sent_requests w @ sent_requests v"
  by (induction w rule: sent_requests.induct) auto

lemma inserted_append: "inserted (w @ v) = inserted w @ inserted v"
  by (induction w rule: inserted.induct) auto

section \<open>String replacement and message formatting\<close>

lemma py_replace_absent:
  "old \<noteq> [] \<Longrightarrow> \<not> sublist old s \<Longrightarrow> py_replace s old new = s"
proof (induction s)
  case Nil
  then show ?case by (simp add: py_replace.simps)
next
  case (Cons c s)
  have np: "\<not> prefix old (c # s)" using Cons.prems(2) prefix_imp_sublist by blast
  have ns: "\<not> sublist old s" using Cons.prems(2) by (meson sublist_Cons_right)
  have "py_replace (c # s) old new = c # py_replace s old new"
    using Cons.prems(1) np by (subst py_replace.simps) simp
  with Cons.IH[OF Cons.prems(1) ns] show ?case by simp
qed

text \<open>The leftmost occurrence is replaced and the scan goes on behind it.\<close>

lemma py_replace_first:
  "old \<noteq> [] \<Longrightarrow> \<not> sublist old (a @ butlast old) \<Longrightarrow>
     py_replace (a @ old @ b) old new = a @ new @ py_replace b old new"
proof (induction a)
  case Nil
  then show ?case by (subst py_replace.simps) simp
next
  case (Cons c a)
  have np: "\<not> prefix old (c # a @ old @ b)"
  proof
    assume p: "prefix old (c # a @ old @ b)"
    have len: "length old \<le> length ((c # a) @ butlast old)" by simp
    have eq: "c # a @ old @ b = ((c # a) @ butlast old) @ (last old # b)"
      using Cons.prems(1) by simp
    have "prefix old ((c # a) @ butlast old)"
      using p len unfolding eq
      by (metis prefix_append prefix_order.dual_order.refl prefix_length_prefix)
    then show False using Cons.prems(2) prefix_imp_sublist by blast
  qed
  have ns: "\<not> sublist old (a @ butlast old)"
    using Cons.prems(2) by (metis append_Cons sublist_Cons_right)
  have "py_replace ((c # a) @ old @ b) old new = c # py_replace (a @ old @ b) old new"
    using Cons.prems(1) np by (subst py_replace.simps) simp
  with Cons.IH[OF Cons.prems(1) ns] show ?case by simp
qed

lemma not_sublist_append_left: "\<not> sublist old (s @ t) \<Longrightarrow> \<not> sublist old s"
  by (meson sublist_appendI sublist_order.order.trans sublist_append_rightI)

lemma py_replace_join:
  "old \<noteq> [] \<Longrightarrow> \<forall>s \<in> set segs. \<not> sublist old (s @ butlast old) \<Longrightarrow>
     py_replace (join old segs) old new = join new segs"
proof (induction old segs rule: join.induct)
  case (1 sep)
  then show ?case by (simp add: py_replace.simps)
next
  case (2 sep x)
  then have "\<not> sublist sep x" using not_sublist_append_left by auto
  with 2 show ?case by (simp add: py_replace_absent)
next
  case (3 sep x y ys)
  then show ?case by (simp add: py_replace_first)
qed

lemma format_message_identity:
  "\<forall>(k, v) \<in> set ctx. \<not> sublist (''{'' @ k @ ''}'') message \<Longrightarrow>
     format_message ctx message = message"
proof (induction ctx arbitrary: message)
  case Nil
  then show ?case by simp
next
  case (Cons kv ctx)
  obtain k v where kv: "kv = (k, v)" by (cases kv)
  have "py_replace message (''{'' @ k @ ''}'') (py_str v) = message"
    using Cons.prems kv by (intro py_replace_absent) auto
  then show ?case using Cons kv by simp
qed

lemma format_message_append:
  "format_message (ctx1 @ ctx2) message = format_message ctx2 (format_message ctx1 message)"
  by (induction ctx1 arbitrary: message) auto

text \<open>
  C9. \<open>format_message\<close> goes through the context keys in order, one pass per key. In the
  pass of a key, every occurrence of its placeholder \<open>{key}\<close> is replaced by the string of
  the value: a message made of segments joined by the placeholder (no segment followed by
  \<open>{key\<close> contains the placeholder, so the occurrences are exactly the joints) becomes the
  same segments joined by the value. A template in which no placeholder of the context
  occurs is returned unchanged. The result is a function of context and template. Under
  the context user = Ada, form = Survey, the template \<open>{user} submitted {form}\<close> becomes
  \<open>Ada submitted Survey\<close>.
\<close>

theorem format_message_replaces_placeholders:
  "((\<forall>s \<in> set segs. \<not> sublist (''{'' @ key @ ''}'') (s @ ''{'' @ key)) \<longrightarrow>
      format_message [(key, val)] (join (''{'' @ key @ ''}'') segs) = join (py_str val) segs)
   \<and> format_message (ctx1 @ (key, val) # ctx2) message =
       format_message ctx2 (format_message [(key, val)] (format_message ctx1 message))
   \<and> ((\<forall>(k, v) \<in> set ctx. \<not> sublist (''{'' @ k @ ''}'') template) \<longrightarrow>
       format_message ctx template = template)
   \<and> format_message [(''user'', PStr ''Ada''), (''form'', PStr ''Survey'')]
        ''{user} submitted {form}'' = ''Ada submitted Survey''"
proof -
  have bl: "butlast (''{'' @ key @ ''}'') = ''{'' @ key" by (simp add: butlast_append)
  have a: "(\<forall>s \<in> set segs. \<not> sublist (''{'' @ key @ ''}'') (s @ ''{'' @ key)) \<longrightarrow>
      format_message [(key, val)] (join (''{'' @ key @ ''}'') segs) = join (py_str val) segs"
    using py_replace_join[of "''{'' @ key @ ''}''" segs "py_str val"] unfolding bl by simp
  have b: "format_message (ctx1 @ (key, val) # ctx2) message =
       format_message ctx2 (format_message [(key, val)] (format_message ctx1 message))"
    by (simp add: format_message_append)
  have c: "(\<forall>(k, v) \<in> set ctx. \<not> sublist (''{'' @ k @ ''}'') template) \<longrightarrow>
       format_message ctx template = template"
    using format_message_identity by blast
  have d: "format_message [(''user'', PStr ''Ada''), (''form'', PStr ''Survey'')]
        ''{user} submitted {form}'' = ''Ada submitted Survey''"
    by code_simp
  from a b c d show ?thesis by blast
qed

theorem format_message_replaces_placeholders_witness:
  "\<not> sublist ''{user}'' (''Hello '' @ ''{user'')
   \<and> \<not> sublist ''{user}'' ('' and '' @ ''{user'')
   \<and> \<not> sublist ''{user}'' (''!'' @ ''{user'')
   \<and> format_message [(''user'', PStr ''Ada'')] ''Hello {user} and {user}!'' = ''Hello Ada and Ada!''
   \<and> \<not> sublist ''{user}'' ''no placeholder''
   \<and> \<not> sublist ''{form}'' ''no placeholder''
   \<and> format_message [(''user'', PStr ''Ada''), (''form'', PStr ''Survey'')] ''no placeholder''
       = ''no placeholder''"
proof -
  have h1: "\<not> sublist ''{user}'' (''Hello '' @ ''{user'')"
    "\<not> sublist ''{user}'' ('' and '' @ ''{user'')"
    "\<not> sublist ''{user}'' (''!'' @ ''{user'')"
    by code_simp+
  have h2: "\<not> sublist ''{user}'' ''no placeholder''" "\<not> sublist ''{form}'' ''no placeholder''"
    by code_simp+
  note t = format_message_replaces_placeholders
             [where segs = "[''Hello '', '' and '', ''!'']" and key = "''user''"
                and val = "PStr ''Ada''"
                and ctx = "[(''user'', PStr ''Ada''), (''form'', PStr ''Survey'')]"
                and template = "''no placeholder''"]
  from t h1 have c1:
    "format_message [(''user'', PStr ''Ada'')] ''Hello {user} and {user}!'' = ''Hello Ada and Ada!''"
    by simp
  from t h2 have c2:
    "format_message [(''user'', PStr ''Ada''), (''form'', PStr ''Survey'')] ''no placeholder''
       = ''no placeholder''"
    by simp
  from h1 h2 c1 c2 show ?thesis by blast
qed

section \<open>The rate-limited client\<close>

text \<open>
  Whenever the first answer is a 429, \<open>make_request\<close> ends in an exception and the
  request has gone out exactly once: the wait is read and slept, and the second await
  of the same coroutine object raises instead of sending.
\<close>

lemma make_request_rate_limited:
  assumes "server e (sent_requests w @
              [\<lparr>http_method = meth, url = urljoin e API_BASE_URL u, json = js,
                headers = dict_update (DISCORD_HEADERS e) (case hdrs of None \<Rightarrow> [] | Some h \<Rightarrow> h),
                params = []\<rparr>]) = Inr resp"
    and "status_code resp = 429"
  shows "\<exists>err w'. make_request e meth u js hdrs w = (Inl err, w')
           \<and> sent_requests w' = sent_requests w @
              [\<lparr>http_method = meth, url = urljoin e API_BASE_URL u, json = js,
                headers = dict_update (DISCORD_HEADERS e) (case hdrs of None \<Rightarrow> [] | Some h \<Rightarrow> h),
                params = []\<rparr>]"
proof -
  have h: "(case hdrs of None \<Rightarrow> [] | Some h \<Rightarrow> (if h \<noteq> [] then h else []))
             = (case hdrs of None \<Rightarrow> [] | Some h \<Rightarrow> h)"
    by (cases hdrs) auto
  show ?thesis
    using assms
    by (auto simp: make_request_def await_request_def handle_rate_limits.simps[of _ _ True] h
        sent_requests_append Let_def split: option.splits)
qed

lemma make_request_status_error:
  assumes "make_request e meth u js hdrs w = (Inl (HTTPStatusError s), w1)"
  shows "sent_requests w1 = sent_requests w @
              [\<lparr>http_method = meth, url = urljoin e API_BASE_URL u, json = js,
                headers = dict_update (DISCORD_HEADERS e) (case hdrs of None \<Rightarrow> [] | Some h \<Rightarrow> h),
                params = []\<rparr>]"
proof -
  have h: "(case hdrs of None \<Rightarrow> [] | Some h \<Rightarrow> (if h \<noteq> [] then h else []))
             = (case hdrs of None \<Rightarrow> [] | Some h \<Rightarrow> h)"
    by (cases hdrs) auto
  show ?thesis
    using assms
    by (auto simp: make_request_def await_request_def handle_rate_limits.simps[of _ _ True] h
        sent_requests_append Let_def split: option.splits sum.splits if_splits)
qed

text \<open>
  C1. Against a server that answers 429 with a wait of 0.2 once and 200 afterwards,
  \<open>make_request\<close> does not return the 200 response: it sends the request once, sleeps
  for the stated wait and then raises \<open>RuntimeError\<close>, because the coroutine object
  awaited a second time cannot be reused. No second request reaches the server.
\<close>

theorem make_request_retry_raises:
  "make_request (test_env retry_server [] no_grader) ''POST'' ''channels/7/messages''
     (Some (PDict [(''content'', PStr ''hi'')])) None []
   = (Inl (RuntimeError ''cannot reuse already awaited coroutine''),
      [Sent \<lparr>http_method = ''POST'', url = ''https://discord.com/api/v8/channels/7/messages'',
             json = Some (PDict [(''content'', PStr ''hi'')]),
             headers = [(''Authorization'', ''Bot token'')], params = []\<rparr>,
       Slept (1 / 5)])"
  by (simp add: make_request_def await_request_def handle_rate_limits.simps dict_update_def
      DISCORD_HEADERS_def API_BASE_URL_def test_env_def retry_server_def reply_def)

section \<open>The webhook embed\<close>

lemma embed_author_other:
  "k \<noteq> ''author'' \<Longrightarrow> dict_get (embed_author response u emb) k = dict_get emb k"
  by (cases u) (simp_all add: embed_author_def dict_get_def Let_def update_conv')

text \<open>
  The implementation in \<open>submit.py\<close> interpolates the mention (or \<open>User\<close>) and the form
  name; title and colour are constants and the timestamp is the response's.
\<close>

lemma submit_embed_fields:
  "dict_get (submit_embed e form response u) ''description''
     = PStr ((case user_discord_mention u of Inl err \<Rightarrow> ''User'' | Inr m \<Rightarrow> m)
             @ '' submitted a response to `'' @ f_name form @ ''`.'')"
  "dict_get (submit_embed e form response u) ''title'' = PStr ''New Form Response''"
  "dict_get (submit_embed e form response u) ''color'' = PInt 7506394"
  "dict_get (submit_embed e form response u) ''timestamp'' = PStr (r_timestamp response)"
  by (simp_all add: submit_embed_def Let_def embed_author_other) (simp_all add: dict_get_def)

text \<open>
  The implementation in \<open>discord.py\<close> has the same title, colour and timestamp, but its
  description starts with \<open>None\<close> for every user: the context has no key \<open>mention\<close>.
\<close>

lemma discord_embed_fields:
  "dict_get (discord_embed e form response u) ''title'' = PStr ''New Form Response''"
  "dict_get (discord_embed e form response u) ''color'' = PInt 7506394"
  "dict_get (discord_embed e form response u) ''timestamp'' = PStr (r_timestamp response)"
  by (simp_all add: discord_embed_def Let_def embed_author_other) (simp_all add: dict_get_def)

lemma discord_embed_description:
  "dict_get (discord_embed e form response u) ''description''
     = PStr (''None submitted a response to `'' @ f_name form @ ''`.'')"
  by (simp add: discord_embed_def Let_def embed_author_other build_ctx_variables_def)
     (simp add: dict_get_def)

text \<open>
  C2. For the form Survey and the user Ada, whose mention handle is \<open><@42>\<close>, the
  notification of \<open>discord.py\<close> posts a hook whose embed has the description
  \<open>None submitted a response to `Survey`.\<close>, while the embed of \<open>submit.py\<close> for the same
  input has \<open><@42> submitted a response to `Survey`.\<close>.
\<close>

theorem discord_webhook_description_none:
  "send_submission_webhook (test_env (\<lambda>reqs. reply 200) [] no_grader) survey survey_response ada []
     = (Inr (), [Sent \<lparr>http_method = ''POST'', url = ''https://hooks.example/1'',
                       json = Some (PDict (discord_hook (test_env (\<lambda>reqs. reply 200) [] no_grader)
                                             survey survey_hook survey_response ada)),
                       headers = [(''Authorization'', ''Bot token'')], params = []\<rparr>])
   \<and> dict_get (discord_hook (test_env (\<lambda>reqs. reply 200) [] no_grader)
                 survey survey_hook survey_response ada) ''embeds''
       = PList [PDict (discord_embed (test_env (\<lambda>reqs. reply 200) [] no_grader)
                         survey survey_response ada)]
   \<and> dict_get (discord_embed (test_env (\<lambda>reqs. reply 200) [] no_grader) survey survey_response ada)
        ''description'' = PStr ''None submitted a response to `Survey`.''
   \<and> user_discord_mention ada = Inr ''<@42>''
   \<and> dict_get (submit_embed (test_env (\<lambda>reqs. reply 200) [] no_grader) survey survey_response ada)
        ''description'' = PStr ''<@42> submitted a response to `Survey`.''"
  apply (intro conjI)
      apply (simp add: send_submission_webhook_def make_request_def await_request_def
               handle_rate_limits.simps dict_update_def DISCORD_HEADERS_def API_BASE_URL_def
               test_env_def reply_def survey_def survey_hook_def raise_for_status_def)
     apply (simp add: discord_hook_def survey_def survey_hook_def dict_get_def Let_def)
    apply (simp add: discord_embed_description survey_def)
   apply (simp add: ada_def)
  apply (simp add: submit_embed_fields ada_def survey_def)
  done

section \<open>Direct-message notification\<close>

text \<open>
  C5. For a user with an id in the claims: if opening the channel fails with status 400,
  the notification returns without an exception and the only request sent is the one that
  opens the channel; if it fails in any other way, that failure is raised. If a channel is
  obtained and posting the rendered message fails with status 403, the notification
  returns without an exception; if posting fails in any other way, that failure is raised.
\<close>

theorem send_direct_message_failures:
  assumes payload: "user_payload u = Inr p" and uid: "dict_item p ''id'' = Inr uid"
  shows "(make_request e ''POST'' ''users/@me/channels''
             (Some (PDict [(''recipient_id'', uid)])) None w = (Inl (HTTPStatusError 400), w1)
          \<longrightarrow> send_direct_message e form response u w = (Inr (), w1)
              \<and> sent_requests w1 = sent_requests w @
                   [\<lparr>http_method = ''POST'', url = urljoin e API_BASE_URL ''users/@me/channels'',
                     json = Some (PDict [(''recipient_id'', uid)]),
                     headers = DISCORD_HEADERS e, params = []\<rparr>])
       \<and> (\<forall>err. make_request e ''POST'' ''users/@me/channels''
                   (Some (PDict [(''recipient_id'', uid)])) None w = (Inl err, w1)
                 \<and> err \<noteq> HTTPStatusError 400
          \<longrightarrow> send_direct_message e form response u w = (Inl err, w1))
       \<and> (\<forall>channel template.
             get_direct_message_channel e uid w = (Inr channel, w1) \<and> truthy channel
             \<and> f_dm_message form = Some template
          \<longrightarrow> (make_request e ''POST'' (''channels/'' @ py_str channel @ ''/messages'')
                   (Some (PDict [(''content'',
                      PStr (format_message (build_ctx_variables form response u) template))]))
                   None w1 = (Inl (HTTPStatusError 403), w2)
                \<longrightarrow> send_direct_message e form response u w = (Inr (), w2))
              \<and> (\<forall>err. make_request e ''POST'' (''channels/'' @ py_str channel @ ''/messages'')
                   (Some (PDict [(''content'',
                      PStr (format_message (build_ctx_variables form response u) template))]))
                   None w1 = (Inl err, w2) \<and> err \<noteq> HTTPStatusError 403
                \<longrightarrow> send_direct_message e form response u w = (Inl err, w2)))"
proof (intro conjI allI impI)
  assume a: "make_request e ''POST'' ''users/@me/channels''
             (Some (PDict [(''recipient_id'', uid)])) None w = (Inl (HTTPStatusError 400), w1)"
  then show "send_direct_message e form response u w = (Inr (), w1)"
    using payload uid by (simp add: send_direct_message_def get_direct_message_channel_def)
  from make_request_status_error[OF a]
  show "sent_requests w1 = sent_requests w @
                   [\<lparr>http_method = ''POST'', url = urljoin e API_BASE_URL ''users/@me/channels'',
                     json = Some (PDict [(''recipient_id'', uid)]),
                     headers = DISCORD_HEADERS e, params = []\<rparr>]"
    by (simp add: dict_update_def)
next
  fix err
  assume "make_request e ''POST'' ''users/@me/channels''
                   (Some (PDict [(''recipient_id'', uid)])) None w = (Inl err, w1)
                 \<and> err \<noteq> HTTPStatusError 400"
  then show "send_direct_message e form response u w = (Inl err, w1)"
    using payload uid
    by (cases err) (simp_all add: send_direct_message_def get_direct_message_channel_def)
next
  fix channel template
  assume c: "get_direct_message_channel e uid w = (Inr channel, w1) \<and> truthy channel
             \<and> f_dm_message form = Some template"
  assume "make_request e ''POST'' (''channels/'' @ py_str channel @ ''/messages'')
                   (Some (PDict [(''content'',
                      PStr (format_message (build_ctx_variables form response u) template))]))
                   None w1 = (Inl (HTTPStatusError 403), w2)"
  with c show "send_direct_message e form response u w = (Inr (), w2)"
    using payload uid by (simp add: send_direct_message_def Let_def)
next
  fix channel template err
  assume c: "get_direct_message_channel e uid w = (Inr channel, w1) \<and> truthy channel
             \<and> f_dm_message form = Some template"
  assume "make_request e ''POST'' (''channels/'' @ py_str channel @ ''/messages'')
                   (Some (PDict [(''content'',
                      PStr (format_message (build_ctx_variables form response u) template))]))
                   None w1 = (Inl err, w2) \<and> err \<noteq> HTTPStatusError 403"
  with c show "send_direct_message e form response u w = (Inl err, w2)"
    using payload uid by (cases err) (simp_all add: send_direct_message_def Let_def)
qed

lemmas dm_eval = send_direct_message_def get_direct_message_channel_def make_request_def
  await_request_def handle_rate_limits.simps dict_update_def DISCORD_HEADERS_def API_BASE_URL_def
  raise_for_status_def dict_get_def dict_item_def build_ctx_variables_def
  test_env_def reply_def survey_def survey_hook_def ada_def Let_def

theorem send_direct_message_failures_witness:
  "send_direct_message (test_env (\<lambda>reqs. reply 400) [] no_grader) survey survey_response ada []
     = (Inr (), [Sent \<lparr>http_method = ''POST'', url = ''https://discord.com/api/v8/users/@me/channels'',
                       json = Some (PDict [(''recipient_id'', PStr ''42'')]),
                       headers = [(''Authorization'', ''Bot token'')], params = []\<rparr>])
   \<and> send_direct_message (test_env (\<lambda>reqs. reply 500) [] no_grader) survey survey_response ada []
     = (Inl (HTTPStatusError 500),
        [Sent \<lparr>http_method = ''POST'', url = ''https://discord.com/api/v8/users/@me/channels'',
               json = Some (PDict [(''recipient_id'', PStr ''42'')]),
               headers = [(''Authorization'', ''Bot token'')], params = []\<rparr>])
   \<and> send_direct_message (test_env (dm_server 403) [] no_grader) survey survey_response ada []
     = (Inr (), [Sent \<lparr>http_method = ''POST'', url = ''https://discord.com/api/v8/users/@me/channels'',
                       json = Some (PDict [(''recipient_id'', PStr ''42'')]),
                       headers = [(''Authorization'', ''Bot token'')], params = []\<rparr>,
                 Sent \<lparr>http_method = ''POST'', url = ''https://discord.com/api/v8/channels/7/messages'',
                       json = Some (PDict [(''content'', PStr ''Thanks <@42>'')]),
                       headers = [(''Authorization'', ''Bot token'')], params = []\<rparr>])
   \<and> send_direct_message (test_env (dm_server 500) [] no_grader) survey survey_response ada []
     = (Inl (HTTPStatusError 500),
        [Sent \<lparr>http_method = ''POST'', url = ''https://discord.com/api/v8/users/@me/channels'',
               json = Some (PDict [(''recipient_id'', PStr ''42'')]),
               headers = [(''Authorization'', ''Bot token'')], params = []\<rparr>,
         Sent \<lparr>http_method = ''POST'', url = ''https://discord.com/api/v8/channels/7/messages'',
               json = Some (PDict [(''content'', PStr ''Thanks <@42>'')]),
               headers = [(''Authorization'', ''Bot token'')], params = []\<rparr>])"
proof -
  let ?open = "\<lparr>http_method = ''POST'', url = ''https://discord.com/api/v8/users/@me/channels'',
                json = Some (PDict [(''recipient_id'', PStr ''42'')]),
                headers = [(''Authorization'', ''Bot token'')], params = []\<rparr>"
  let ?msg = "\<lparr>http_method = ''POST'', url = ''https://discord.com/api/v8/channels/7/messages'',
               json = Some (PDict [(''content'', PStr ''Thanks <@42>'')]),
               headers = [(''Authorization'', ''Bot token'')], params = []\<rparr>"
  have payload: "user_payload ada = Inr [(''id'', PStr ''42'')]" by (simp add: ada_def)
  have uid: "dict_item [(''id'', PStr ''42'')] ''id'' = Inr (PStr ''42'')" by (simp add: dict_item_def)
  note t = send_direct_message_failures[OF payload uid]
  have open_fails: "make_request (test_env (\<lambda>reqs. reply c) [] no_grader) ''POST'' ''users/@me/channels''
             (Some (PDict [(''recipient_id'', PStr ''42'')])) None []
           = (Inl (HTTPStatusError c), [Sent ?open])" if "c = 400 \<or> c = 500" for c
    using that by (auto simp: dm_eval)
  have channel: "get_direct_message_channel (test_env (dm_server c) [] no_grader) (PStr ''42'') []
           = (Inr (PStr ''7''), [Sent ?open])" for c
    by (simp add: dm_eval dm_server_def)
  have template: "f_dm_message survey = Some ''Thanks {user}''" by (simp add: survey_def)
  have rendered: "format_message (build_ctx_variables survey survey_response ada) ''Thanks {user}''
                = ''Thanks <@42>''"
    by (simp add: build_ctx_variables_def ada_def) code_simp
  have post_fails: "make_request (test_env (dm_server c) [] no_grader) ''POST''
             (''channels/'' @ py_str (PStr ''7'') @ ''/messages'')
             (Some (PDict [(''content'',
                PStr (format_message (build_ctx_variables survey survey_response ada) ''Thanks {user}''))]))
             None [Sent ?open]
           = (Inl (HTTPStatusError c), [Sent ?open, Sent ?msg])" if "c = 403 \<or> c = 500" for c
    unfolding rendered using that by (auto simp: dm_eval dm_server_def)
  have a: "send_direct_message (test_env (\<lambda>reqs. reply 400) [] no_grader) survey survey_response ada []
             = (Inr (), [Sent ?open])"
    using t[of "test_env (\<lambda>reqs. reply 400) [] no_grader" "[]" "[Sent ?open]" survey survey_response]
          open_fails[of 400] by simp
  have b: "send_direct_message (test_env (\<lambda>reqs. reply 500) [] no_grader) survey survey_response ada []
             = (Inl (HTTPStatusError 500), [Sent ?open])"
    using t[of "test_env (\<lambda>reqs. reply 500) [] no_grader" "[]" "[Sent ?open]" survey survey_response]
          open_fails[of 500] by simp
  have c: "send_direct_message (test_env (dm_server 403) [] no_grader) survey survey_response ada []
             = (Inr (), [Sent ?open, Sent ?msg])"
    using t[of "test_env (dm_server 403) [] no_grader" "[]" "[Sent ?open]" survey survey_response
              "[Sent ?open, Sent ?msg]"]
          channel[of 403] template post_fails[of 403] by simp
  have d: "send_direct_message (test_env (dm_server 500) [] no_grader) survey survey_response ada []
             = (Inl (HTTPStatusError 500), [Sent ?open, Sent ?msg])"
    using t[of "test_env (dm_server 500) [] no_grader" "[]" "[Sent ?open]" survey survey_response
              "[Sent ?open, Sent ?msg]"]
          channel[of 500] template post_fails[of 500] by simp
  from a b c d show ?thesis by blast
qed

section \<open>The submission handler: stages\<close>

lemma find_one_None:
  "(find_one forms fid = None) = (\<forall>f \<in> set forms. f_id f = fid \<longrightarrow> ''OPEN'' \<notin> set (f_features f))"
  by (auto simp: find_one_def find_None_iff)

lemma antispam_enrichment_inserted:
  "antispam_enrichment e form req data response w = (res, w1) \<Longrightarrow> inserted w1 = inserted w"
  by (auto simp: antispam_enrichment_def Let_def inserted_append
           split: if_splits option.splits sum.splits pyval.splits)

lemma login_gate_status: "login_gate form req response = Inl r \<Longrightarrow> status r = 400 \<and> background r = None"
  by (auto simp: login_gate_def split: if_splits acting_user.splits)

lemma login_gate_early:
  "login_gate form req response = Inl r \<Longrightarrow> \<exists>msg. content r = ErrorBody msg"
  by (auto simp: login_gate_def split: if_splits acting_user.splits)

lemma run_unittests_status:
  "run_unittests e form response_obj = Return r \<Longrightarrow>
     (status r = 500 \<or> status r = 403) \<and> background r = None
     \<and> (\<exists>ts. content r = FailedTests ''failed_tests'' ts)"
  by (auto simp: run_unittests_def Let_def split: if_splits sum.splits)

lemma post_success:
  assumes "post e req w = (Inr r, w')" and "content r = Submitted form doc"
  shows "\<exists>response1 w1 response2 response3.
           find_one (db_forms e) (path_form_id req) = Some form
         \<and> antispam_enrichment e form req (request_data req) (response_shell e form req) w
              = (Inr response1, w1)
         \<and> login_gate form req response1 = Inr response2
         \<and> complete_fields form response2 = Inr (response3, [])
         \<and> FormResponse_init e response3 = Inr doc
         \<and> run_unittests e form doc = Continue ()
         \<and> r = \<lparr>content = Submitted form doc, status = 200,
                  background = (if WEBHOOK_ENABLED \<in> set (f_features form)
                                then Some (BackgroundTask form doc (user req)) else None)\<rparr>
         \<and> w' = w1 @ [Inserted doc]"
  using assms
  apply (simp add: post_def Let_def split: option.splits prod.splits sum.splits if_splits py_error.splits step.splits)
  apply (auto dest!: login_gate_early run_unittests_status)
  done

lemmas post_eval = post_def find_one_def request_data_def response_shell_def
  antispam_enrichment_def login_gate_def complete_fields_def FormResponse_init_def
  run_unittests_def raise_for_status_def dict_get_def dict_item_def dict_has_def
  DISABLE_ANTISPAM_def REQUIRES_LOGIN_def COLLECT_EMAIL_def WEBHOOK_ENABLED_def
  HCAPTCHA_VERIFY_URL_def HCAPTCHA_HEADERS_def test_env_def submission_def Let_def

text \<open>
  The end-to-end example of the spec: an open form without login, with anti-spam, one
  required question \<open>q1\<close> and no webhook. The answer is 200, the response has an antispam
  block and a timestamp, and no notification is scheduled.
\<close>

lemma post_end_to_end:
  "post (test_env captcha_server [feedback] no_grader)
     (submission ''feedback''
        [(''response'', PDict [(''q1'', PStr ''yes'')]), (''captcha'', PStr ''tok'')] Anonymous) []
   = (Inr \<lparr>content = Submitted feedback
             \<lparr>r_id = ''uuid-1'', r_user = None,
              r_antispam = Some \<lparr>ip_hash = ''md5:192.0.2.1'',
                                  user_agent_hash = ''md5:Mozilla/5.0'', captcha_pass = True\<rparr>,
              r_response = [(''q1'', PStr ''yes''), (''q2'', PNone)],
              r_form_id = ''feedback'', r_timestamp = ''2021-01-01T00:00:00''\<rparr>,
           status = 200, background = None\<rparr>,
      [Sent \<lparr>http_method = ''POST'', url = ''https://hcaptcha.com/siteverify'', json = None,
             headers = [(''Content-Type'', ''application/x-www-form-urlencoded'')],
             params = [(''secret'', PStr ''secret''), (''response'', PStr ''tok'')]\<rparr>,
       Inserted \<lparr>r_id = ''uuid-1'', r_user = None,
              r_antispam = Some \<lparr>ip_hash = ''md5:192.0.2.1'',
                                  user_agent_hash = ''md5:Mozilla/5.0'', captcha_pass = True\<rparr>,
              r_response = [(''q1'', PStr ''yes''), (''q2'', PNone)],
              r_form_id = ''feedback'', r_timestamp = ''2021-01-01T00:00:00''\<rparr>])"
  by (simp add: post_eval feedback_def captcha_server_def no_grader_def)

section \<open>The submission handler: lookup\<close>

text \<open>
  C8. When no stored form has the requested id together with the feature \<open>OPEN\<close>, the
  handler answers 404 "Open form not found" whatever the request holds; the trace is
  unchanged (no verification call, nothing inserted) and no background task is scheduled.
\<close>

theorem post_not_found:
  assumes "\<forall>f \<in> set (db_forms e). f_id f = path_form_id req \<longrightarrow> ''OPEN'' \<notin> set (f_features f)"
  shows "post e req w =
           (Inr \<lparr>content = ErrorBody ''Open form not found'', status = 404, background = None\<rparr>, w)"
  using assms by (simp add: post_def Let_def find_one_None[symmetric])

theorem post_not_found_witness:
  "db_forms (test_env captcha_server [feedback] no_grader) = [feedback]
   \<and> f_id feedback \<noteq> ''survey''
   \<and> post (test_env captcha_server [feedback] no_grader)
        (submission ''survey'' [(''response'', PDict [])] Anonymous) []
      = (Inr \<lparr>content = ErrorBody ''Open form not found'', status = 404, background = None\<rparr>, [])"
proof -
  have forms: "db_forms (test_env captcha_server [feedback] no_grader) = [feedback]"
    by (simp add: test_env_def)
  have other: "f_id feedback \<noteq> ''survey''" by (simp add: feedback_def)
  have h: "\<forall>f \<in> set (db_forms (test_env captcha_server [feedback] no_grader)).
       f_id f = path_form_id (submission ''survey'' [(''response'', PDict [])] Anonymous)
         \<longrightarrow> ''OPEN'' \<notin> set (f_features f)"
    using forms other by (simp add: submission_def)
  from post_not_found[OF h] forms other show ?thesis by blast
qed

section \<open>The submission handler: persistence\<close>

text \<open>
  C10. Whatever the handler ends with, the store receives a document exactly when the
  answer has status 200: an exception or an answer with status 400, 403, 404, 422 or 500
  leaves the inserted documents as they were, and an answer with status 200 comes with
  exactly one inserted document, the response it reports.
\<close>

theorem post_persists_iff_success:
  assumes "post e req w = (res, w')"
  shows "(case res of
            Inl err \<Rightarrow> inserted w' = inserted w
          | Inr r \<Rightarrow>
              if status r = 200
              then (\<exists>form doc. content r = Submitted form doc \<and> inserted w' = inserted w @ [doc])
              else status r \<in> {400, 403, 404, 422, 500} \<and> inserted w' = inserted w)"
  using assms
  apply (simp add: post_def Let_def split: option.splits prod.splits sum.splits if_splits py_error.splits step.splits)
  apply (auto simp: inserted_append dest!: antispam_enrichment_inserted login_gate_status run_unittests_status)
  done

theorem post_persists_iff_success_witness:
  "inserted (snd (post (test_env captcha_server [feedback] no_grader)
       (submission ''feedback''
          [(''response'', PDict [(''q1'', PStr ''yes'')]), (''captcha'', PStr ''tok'')] Anonymous) []))
     = [\<lparr>r_id = ''uuid-1'', r_user = None,
              r_antispam = Some \<lparr>ip_hash = ''md5:192.0.2.1'',
                                  user_agent_hash = ''md5:Mozilla/5.0'', captcha_pass = True\<rparr>,
              r_response = [(''q1'', PStr ''yes''), (''q2'', PNone)],
              r_form_id = ''feedback'', r_timestamp = ''2021-01-01T00:00:00''\<rparr>]
   \<and> (\<exists>r w'. post (test_env captcha_server [feedback] no_grader)
              (submission ''feedback'' [(''response'', PDict [])] Anonymous) [] = (Inr r, w')
          \<and> status r = 400 \<and> inserted w' = [])"
proof -
  have a: "post (test_env captcha_server [feedback] no_grader)
              (submission ''feedback'' [(''response'', PDict [])] Anonymous) []
           = (Inr \<lparr>content = MissingFields ''missing_fields'' [''q1''], status = 400,
                    background = None\<rparr>,
              [Sent \<lparr>http_method = ''POST'', url = ''https://hcaptcha.com/siteverify'', json = None,
                 headers = [(''Content-Type'', ''application/x-www-form-urlencoded'')],
                 params = [(''secret'', PStr ''secret''), (''response'', PNone)]\<rparr>])"
    by (simp add: post_eval feedback_def captcha_server_def no_grader_def)
  from post_persists_iff_success[OF a] have "inserted [Sent \<lparr>http_method = ''POST'', url = ''https://hcaptcha.com/siteverify'', json = None,
                 headers = [(''Content-Type'', ''application/x-www-form-urlencoded'')],
                 params = [(''secret'', PStr ''secret''), (''response'', PNone)]\<rparr>] = []"
    by simp
  with a have 2: "\<exists>r w'. post (test_env captcha_server [feedback] no_grader)
              (submission ''feedback'' [(''response'', PDict [])] Anonymous) [] = (Inr r, w')
          \<and> status r = 400 \<and> inserted w' = []" by simp
  from post_persists_iff_success[OF post_end_to_end] have 1: "inserted (snd (post (test_env captcha_server [feedback] no_grader)
       (submission ''feedback''
          [(''response'', PDict [(''q1'', PStr ''yes'')]), (''captcha'', PStr ''tok'')] Anonymous) []))
     = [\<lparr>r_id = ''uuid-1'', r_user = None,
              r_antispam = Some \<lparr>ip_hash = ''md5:192.0.2.1'',
                                  user_agent_hash = ''md5:Mozilla/5.0'', captcha_pass = True\<rparr>,
              r_response = [(''q1'', PStr ''yes''), (''q2'', PNone)],
              r_form_id = ''feedback'', r_timestamp = ''2021-01-01T00:00:00''\<rparr>]"
    by (simp add: post_end_to_end)
  from 1 2 show ?thesis by blast
qed

section \<open>The submission handler: field completeness\<close>

lemma dict_has_map_of: "dict_has d k = (map_of d k \<noteq> None)"
  by (simp add: dict_has_def map_of_eq_None_iff)

lemma dict_has_update: "dict_has (AList.update k v d) k' = (k' = k \<or> dict_has d k')"
  by (simp add: dict_has_map_of update_conv')

lemma check_questions_missing:
  "no_shadowing qs \<Longrightarrow>
     snd (check_questions qs answers missing)
       = missing @ map q_id (filter (\<lambda>q. required q \<and> \<not> dict_has answers (q_id q)) qs)"
proof (induction qs arbitrary: answers missing)
  case Nil
  then show ?case by simp
next
  case (Cons q qs)
  show ?case
  proof (cases "\<not> dict_has answers (q_id q) \<and> \<not> required q")
    case True
    have "filter (\<lambda>q'. required q' \<and> \<not> dict_has (AList.update (q_id q) PNone answers) (q_id q')) qs
            = filter (\<lambda>q'. required q' \<and> \<not> dict_has answers (q_id q')) qs"
      using Cons.prems True by (intro filter_cong) (auto simp: dict_has_update)
    with Cons True show ?thesis by simp
  next
    case False
    with Cons show ?thesis by auto
  qed
qed

lemma check_questions_answers:
  "map_of (fst (check_questions qs answers missing)) k
     = (if dict_has answers k then map_of answers k
        else if k \<in> q_id ` {q \<in> set qs. \<not> required q} then Some PNone else None)"
proof (induction qs arbitrary: answers missing)
  case Nil
  then show ?case by (simp add: dict_has_map_of)
next
  case (Cons q qs)
  show ?case
    using Cons.IH[of "AList.update (q_id q) PNone answers" missing]
          Cons.IH[of answers "missing @ [q_id q]"] Cons.IH[of answers missing]
    by (auto simp: dict_has_update update_conv' dict_has_map_of)
qed

lemma map_of_response_shell:
  "map_of (response_shell e form req) ''response'' = map_of (json_body req) ''response''"
  by (simp add: response_shell_def request_data_def update_conv')

lemma antispam_enrichment_response:
  "antispam_enrichment e form req data response w = (Inr response1, w1) \<Longrightarrow>
     map_of response1 ''response'' = map_of response ''response''"
  by (auto simp: antispam_enrichment_def Let_def update_conv'
           split: if_splits option.splits sum.splits pyval.splits)

lemma login_gate_response:
  "login_gate form req response1 = Inr response2 \<Longrightarrow>
     map_of response2 ''response'' = map_of response1 ''response''"
  by (auto simp: login_gate_def update_conv' split: if_splits acting_user.splits)

lemma FormResponse_init_response:
  "FormResponse_init e d = Inr doc \<Longrightarrow> map_of d ''response'' = Some (PDict (r_response doc))"
  apply (auto simp: FormResponse_init_def split: prod.splits option.splits)
  subgoal for r by (cases "map_of d ''response''"; cases "the (map_of d ''response'')") auto
  done

text \<open>
  C3, as stated, fails, in two ways. The form Shadowed has a non-required and then a
  required question with the same id \<open>a\<close>: for a submission without an answer for \<open>a\<close>,
  the first question fills in null, the required question then finds the id present, and
  the handler persists the response and answers 200 instead of 400 "missing_fields".
  The form Members requires login: for an anonymous submission that lacks the required
  answer \<open>q1\<close>, the login gate comes first and the handler answers 400
  "missing_discord_data", with no list of fields.
\<close>

theorem post_missing_fields_counterexample:
  "find_one (db_forms (test_env captcha_server [shadowed, members_only] no_grader)) ''shadowed''
     = Some shadowed
   \<and> \<lparr>q_id = ''a'', required = True, q_data = []\<rparr> \<in> set (f_questions shadowed)
   \<and> \<not> dict_has [] ''a''
   \<and> post (test_env captcha_server [shadowed, members_only] no_grader)
        (submission ''shadowed'' [(''response'', PDict [])] Anonymous) []
      = (Inr \<lparr>content = Submitted shadowed
                \<lparr>r_id = ''uuid-1'', r_user = None, r_antispam = None,
                 r_response = [(''a'', PNone)], r_form_id = ''shadowed'',
                 r_timestamp = ''2021-01-01T00:00:00''\<rparr>,
              status = 200, background = None\<rparr>,
         [Inserted \<lparr>r_id = ''uuid-1'', r_user = None, r_antispam = None,
                    r_response = [(''a'', PNone)], r_form_id = ''shadowed'',
                    r_timestamp = ''2021-01-01T00:00:00''\<rparr>])
   \<and> find_one (db_forms (test_env captcha_server [shadowed, members_only] no_grader)) ''members''
     = Some members_only
   \<and> \<lparr>q_id = ''q1'', required = True, q_data = []\<rparr> \<in> set (f_questions members_only)
   \<and> \<not> dict_has [] ''q1''
   \<and> post (test_env captcha_server [shadowed, members_only] no_grader)
        (submission ''members'' [(''response'', PDict [])] Anonymous) []
      = (Inr \<lparr>content = ErrorBody ''missing_discord_data'', status = 400, background = None\<rparr>, [])"
  by (simp add: post_eval shadowed_def members_only_def no_grader_def)

text \<open>
  C3 (amended). For a submission to an open form that has passed the anti-spam
  enrichment and the login gate, with submitted answers \<open>answers\<close>, and a form in which no
  required question shares its id with an earlier non-required question: the loop
  collects exactly the ids of the required questions absent from the submitted answers, in
  the order of the form's questions, and gives every non-required question absent from
  the submitted answers the answer null. When at least one required question is absent,
  the handler answers 400 "missing_fields" with that list. When the handler reports
  success, no required question was absent, every question absent from the submitted
  answers is not required and has the answer null in the persisted response, and the
  submitted answers are kept.
\<close>

theorem post_missing_fields:
  assumes found: "find_one (db_forms e) (path_form_id req) = Some form"
    and spam: "antispam_enrichment e form req (request_data req) (response_shell e form req) w
                 = (Inr response1, w1)"
    and login: "login_gate form req response1 = Inr response2"
    and answers: "map_of (json_body req) ''response'' = Some (PDict answers)"
    and ns: "no_shadowing (f_questions form)"
  shows "snd (check_questions (f_questions form) answers [])
           = map q_id (filter (\<lambda>q. required q \<and> \<not> dict_has answers (q_id q)) (f_questions form))
       \<and> (\<forall>q \<in> set (f_questions form). \<not> dict_has answers (q_id q) \<and> \<not> required q \<longrightarrow>
             map_of (fst (check_questions (f_questions form) answers [])) (q_id q) = Some PNone)
       \<and> (map q_id (filter (\<lambda>q. required q \<and> \<not> dict_has answers (q_id q)) (f_questions form)) \<noteq> []
            \<longrightarrow> post e req w =
                  (Inr \<lparr>content = MissingFields ''missing_fields''
                          (map q_id (filter (\<lambda>q. required q \<and> \<not> dict_has answers (q_id q))
                                       (f_questions form))),
                        status = 400, background = None\<rparr>, w1))
       \<and> (\<forall>r w' doc. post e req w = (Inr r, w') \<and> content r = Submitted form doc \<longrightarrow>
             map q_id (filter (\<lambda>q. required q \<and> \<not> dict_has answers (q_id q)) (f_questions form)) = []
             \<and> (\<forall>q \<in> set (f_questions form). \<not> dict_has answers (q_id q) \<longrightarrow>
                   \<not> required q \<and> map_of (r_response doc) (q_id q) = Some PNone)
             \<and> (\<forall>k. dict_has answers k \<longrightarrow> map_of (r_response doc) k = map_of answers k))"
proof -
  let ?qs = "f_questions form"
  let ?missing = "map q_id (filter (\<lambda>q. required q \<and> \<not> dict_has answers (q_id q)) ?qs)"
  have r2: "map_of response2 ''response'' = Some (PDict answers)"
    using login_gate_response[OF login] antispam_enrichment_response[OF spam]
          map_of_response_shell answers by simp
  have cq: "snd (check_questions ?qs answers []) = ?missing"
    using check_questions_missing[OF ns, of answers "[]"] by simp
  have cf: "?qs \<noteq> [] \<Longrightarrow> complete_fields form response2
           = Inr (AList.update ''response'' (PDict (fst (check_questions ?qs answers []))) response2,
                  ?missing)"
    using r2 cq by (simp add: complete_fields_def dict_item_def split_beta)
  have cf0: "?qs = [] \<Longrightarrow> complete_fields form response2 = Inr (response2, [])"
    by (simp add: complete_fields_def)
  have a: "?missing \<noteq> [] \<longrightarrow> post e req w =
                  (Inr \<lparr>content = MissingFields ''missing_fields'' ?missing,
                        status = 400, background = None\<rparr>, w1)"
  proof
    assume m: "?missing \<noteq> []"
    then have "?qs \<noteq> []" by auto
    from cf[OF this] m show "post e req w =
                  (Inr \<lparr>content = MissingFields ''missing_fields'' ?missing,
                        status = 400, background = None\<rparr>, w1)"
      using found spam login by (simp add: post_def Let_def)
  qed
  have b: "\<And>r w' doc. post e req w = (Inr r, w') \<Longrightarrow> content r = Submitted form doc \<Longrightarrow>
             ?missing = []
             \<and> (\<forall>q \<in> set ?qs. \<not> dict_has answers (q_id q) \<longrightarrow>
                   \<not> required q \<and> map_of (r_response doc) (q_id q) = Some PNone)
             \<and> (\<forall>k. dict_has answers k \<longrightarrow> map_of (r_response doc) k = map_of answers k)"
  proof -
    fix r w' doc
    assume p: "post e req w = (Inr r, w')" and c: "content r = Submitted form doc"
    from post_success[OF p c] spam login obtain response3 where
      cf3: "complete_fields form response2 = Inr (response3, [])"
      and init: "FormResponse_init e response3 = Inr doc"
      by auto
    have doc3: "map_of response3 ''response'' = Some (PDict (r_response doc))"
      using FormResponse_init_response[OF init] .
    show "?missing = []
             \<and> (\<forall>q \<in> set ?qs. \<not> dict_has answers (q_id q) \<longrightarrow>
                   \<not> required q \<and> map_of (r_response doc) (q_id q) = Some PNone)
             \<and> (\<forall>k. dict_has answers k \<longrightarrow> map_of (r_response doc) k = map_of answers k)"
    proof (cases "?qs = []")
      case True
      then show ?thesis using cf0[OF True] cf3 doc3 r2 by auto
    next
      case False
      have m: "?missing = []" using cf[OF False] cf3 by simp
      have req_present: "\<forall>q \<in> set ?qs. \<not> dict_has answers (q_id q) \<longrightarrow> \<not> required q"
        using m by (auto simp: filter_empty_conv)
      have doc: "r_response doc = fst (check_questions ?qs answers [])"
        using cf[OF False] cf3 doc3 by (auto simp: update_conv')
      show ?thesis
        using m req_present by (auto simp: doc check_questions_answers)
    qed
  qed
  have f: "\<forall>q \<in> set ?qs. \<not> dict_has answers (q_id q) \<and> \<not> required q \<longrightarrow>
             map_of (fst (check_questions ?qs answers [])) (q_id q) = Some PNone"
    by (auto simp: check_questions_answers)
  from cq f a b show ?thesis by blast
qed

theorem post_missing_fields_witness:
  "find_one (db_forms (test_env captcha_server [feedback] no_grader)) ''feedback'' = Some feedback
   \<and> no_shadowing (f_questions feedback)
   \<and> post (test_env captcha_server [feedback] no_grader)
        (submission ''feedback'' [(''response'', PDict [])] Anonymous) []
      = (Inr \<lparr>content = MissingFields ''missing_fields'' [''q1''], status = 400,
              background = None\<rparr>,
         [Sent \<lparr>http_method = ''POST'', url = ''https://hcaptcha.com/siteverify'', json = None,
                headers = [(''Content-Type'', ''application/x-www-form-urlencoded'')],
                params = [(''secret'', PStr ''secret''), (''response'', PNone)]\<rparr>])
   \<and> map_of [(''q1'', PStr ''yes''), (''q2'', PNone)] ''q2'' = Some PNone
   \<and> snd (check_questions (f_questions feedback) [] []) = [''q1'']"
proof -
  let ?e = "test_env captcha_server [feedback] no_grader"
  let ?r0 = "submission ''feedback'' [(''response'', PDict [])] Anonymous"
  let ?r1 = "submission ''feedback''
             [(''response'', PDict [(''q1'', PStr ''yes'')]), (''captcha'', PStr ''tok'')] Anonymous"
  let ?sent0 = "[Sent \<lparr>http_method = ''POST'', url = ''https://hcaptcha.com/siteverify'', json = None,
                headers = [(''Content-Type'', ''application/x-www-form-urlencoded'')],
                params = [(''secret'', PStr ''secret''), (''response'', PNone)]\<rparr>]"
  let ?sent1 = "[Sent \<lparr>http_method = ''POST'', url = ''https://hcaptcha.com/siteverify'', json = None,
                headers = [(''Content-Type'', ''application/x-www-form-urlencoded'')],
                params = [(''secret'', PStr ''secret''), (''response'', PStr ''tok'')]\<rparr>]"
  let ?block = "PDict [(''ip_hash'', PStr ''md5:192.0.2.1''),
                       (''user_agent_hash'', PStr ''md5:Mozilla/5.0''),
                       (''captcha_pass'', PBool True)]"
  have found: "find_one (db_forms ?e) ''feedback'' = Some feedback"
    by (simp add: find_one_def test_env_def feedback_def)
  have found0: "find_one (db_forms ?e) (path_form_id ?r0) = Some feedback"
    and found1: "find_one (db_forms ?e) (path_form_id ?r1) = Some feedback"
    using found by (simp_all add: submission_def)
  have ns: "no_shadowing (f_questions feedback)" by (simp add: feedback_def)
  have spam0: "antispam_enrichment ?e feedback ?r0 (request_data ?r0) (response_shell ?e feedback ?r0) []
                 = (Inr (AList.update ''antispam'' ?block (response_shell ?e feedback ?r0)), ?sent0)"
    by (simp add: post_eval feedback_def captcha_server_def)
  have spam1: "antispam_enrichment ?e feedback ?r1 (request_data ?r1) (response_shell ?e feedback ?r1) []
                 = (Inr (AList.update ''antispam'' ?block (response_shell ?e feedback ?r1)), ?sent1)"
    by (simp add: post_eval feedback_def captcha_server_def)
  have login0: "login_gate feedback ?r0 (AList.update ''antispam'' ?block (response_shell ?e feedback ?r0))
                  = Inr (AList.update ''antispam'' ?block (response_shell ?e feedback ?r0))"
    by (simp add: login_gate_def feedback_def REQUIRES_LOGIN_def)
  have login1: "login_gate feedback ?r1 (AList.update ''antispam'' ?block (response_shell ?e feedback ?r1))
                  = Inr (AList.update ''antispam'' ?block (response_shell ?e feedback ?r1))"
    by (simp add: login_gate_def feedback_def REQUIRES_LOGIN_def)
  have ans0: "map_of (json_body ?r0) ''response'' = Some (PDict [])"
    by (simp add: submission_def)
  have ans1: "map_of (json_body ?r1) ''response'' = Some (PDict [(''q1'', PStr ''yes'')])"
    by (simp add: submission_def)
  have a: "post ?e ?r0 [] = (Inr \<lparr>content = MissingFields ''missing_fields'' [''q1''], status = 400,
              background = None\<rparr>, ?sent0)"
    using post_missing_fields[OF found0 spam0 login0 ans0 ns]
    by (simp add: feedback_def dict_has_def)
  have b: "map_of [(''q1'', PStr ''yes''), (''q2'', PNone)] ''q2'' = Some PNone"
    using post_missing_fields[OF found1 spam1 login1 ans1 ns] post_end_to_end
    by (simp add: feedback_def dict_has_def)
  have c: "snd (check_questions (f_questions feedback) [] []) = [''q1'']"
    using post_missing_fields[OF found0 spam0 login0 ans0 ns]
    by (simp add: feedback_def dict_has_def)
  from found ns a b c show ?thesis by blast
qed

section \<open>The submission handler: grading gate\<close>

text \<open>
  C4. For a submission that has passed the stages up to schema validation, to a form
  with at least one graded question, and for the results returned by the grading service:
  nothing has been inserted up to this point; if some result has not passed, the handler
  answers "failed_tests" with exactly the results that have not passed, in their order,
  with status 500 if some result has return code 99 and 403 otherwise, and inserts nothing;
  if all results have passed, the handler inserts the response and answers 200.
\<close>

theorem post_grading_gate:
  assumes found: "find_one (db_forms e) (path_form_id req) = Some form"
    and spam: "antispam_enrichment e form req (request_data req) (response_shell e form req) w
                 = (Inr response1, w1)"
    and login: "login_gate form req response1 = Inr response2"
    and fields: "complete_fields form response2 = Inr (response3, [])"
    and valid: "FormResponse_init e response3 = Inr response_obj"
    and graded: "\<exists>q \<in> set (f_questions form). dict_has (q_data q) ''unittests''"
    and results: "execute_unittest e response_obj form = Inr results"
  shows "inserted w1 = inserted w
       \<and> ((\<exists>t \<in> set results. \<not> passed t) \<longrightarrow>
            post e req w =
              (Inr \<lparr>content = FailedTests ''failed_tests'' (filter (\<lambda>t. \<not> passed t) results),
                    status = (if \<exists>t \<in> set results. return_code t = 99 then 500 else 403),
                    background = None\<rparr>, w1))
       \<and> ((\<forall>t \<in> set results. passed t) \<longrightarrow>
            post e req w =
              (Inr \<lparr>content = Submitted form response_obj, status = 200,
                    background = (if WEBHOOK_ENABLED \<in> set (f_features form)
                                  then Some (BackgroundTask form response_obj (user req))
                                  else None)\<rparr>,
               w1 @ [Inserted response_obj]))"
proof -
  have ru: "run_unittests e form response_obj =
             (if list_all passed results then Continue ()
              else Return \<lparr>content = FailedTests ''failed_tests'' (filter (\<lambda>t. \<not> passed t) results),
                           status = (if \<exists>t \<in> set results. return_code t = 99 then 500 else 403),
                           background = None\<rparr>)"
    using graded results by (auto simp: run_unittests_def Let_def list_ex_iff)
  have p: "post e req w = (case run_unittests e form response_obj of
              Raise err \<Rightarrow> (Inl err, w1)
            | Return failed \<Rightarrow> (Inr failed, w1)
            | Continue u \<Rightarrow>
               (Inr \<lparr>content = Submitted form response_obj, status = 200,
                    background = (if WEBHOOK_ENABLED \<in> set (f_features form)
                                  then Some (BackgroundTask form response_obj (user req))
                                  else None)\<rparr>,
               w1 @ [Inserted response_obj]))"
    using found spam login fields valid by (simp add: post_def Let_def split: step.splits)
  show ?thesis
    unfolding p ru using antispam_enrichment_inserted[OF spam]
    by (auto simp: list_all_iff)
qed

theorem post_grading_gate_witness:
  "(\<exists>q \<in> set (f_questions quiz). dict_has (q_data q) ''unittests'')
   \<and> post (test_env captcha_server [quiz] (grader 99))
        (submission ''quiz'' [(''response'', PDict [(''c1'', PStr ''x''), (''c2'', PStr ''y'')])]
           Anonymous) []
      = (Inr \<lparr>content = FailedTests ''failed_tests''
                 [\<lparr>passed = False, return_code = 99, diagnostic = PStr ''c2''\<rparr>],
              status = 500, background = None\<rparr>, [])
   \<and> post (test_env captcha_server [quiz] (grader 1))
        (submission ''quiz'' [(''response'', PDict [(''c1'', PStr ''x''), (''c2'', PStr ''y'')])]
           Anonymous) []
      = (Inr \<lparr>content = FailedTests ''failed_tests''
                 [\<lparr>passed = False, return_code = 1, diagnostic = PStr ''c2''\<rparr>],
              status = 403, background = None\<rparr>, [])
   \<and> post (test_env captcha_server [quiz] (grader 0))
        (submission ''quiz'' [(''response'', PDict [(''c1'', PStr ''x''), (''c2'', PStr ''y'')])]
           Anonymous) []
      = (Inr \<lparr>content = Submitted quiz
                 \<lparr>r_id = ''uuid-1'', r_user = None, r_antispam = None,
                  r_response = [(''c1'', PStr ''x''), (''c2'', PStr ''y'')], r_form_id = ''quiz'',
                  r_timestamp = ''2021-01-01T00:00:00''\<rparr>,
              status = 200, background = None\<rparr>,
         [Inserted \<lparr>r_id = ''uuid-1'', r_user = None, r_antispam = None,
                  r_response = [(''c1'', PStr ''x''), (''c2'', PStr ''y'')], r_form_id = ''quiz'',
                  r_timestamp = ''2021-01-01T00:00:00''\<rparr>])"
proof -
  let ?req = "submission ''quiz'' [(''response'', PDict [(''c1'', PStr ''x''), (''c2'', PStr ''y'')])]
           Anonymous"
  let ?doc = "\<lparr>r_id = ''uuid-1'', r_user = None, r_antispam = None,
                  r_response = [(''c1'', PStr ''x''), (''c2'', PStr ''y'')], r_form_id = ''quiz'',
                  r_timestamp = ''2021-01-01T00:00:00''\<rparr>"
  have graded: "\<exists>q \<in> set (f_questions quiz). dict_has (q_data q) ''unittests''"
    by (simp add: quiz_def dict_has_def)
  have stages: "find_one (db_forms (test_env captcha_server [quiz] (grader c))) (path_form_id ?req)
                  = Some quiz"
    "antispam_enrichment (test_env captcha_server [quiz] (grader c)) quiz ?req (request_data ?req)
        (response_shell (test_env captcha_server [quiz] (grader c)) quiz ?req) []
      = (Inr (response_shell (test_env captcha_server [quiz] (grader c)) quiz ?req), [])"
    "login_gate quiz ?req (response_shell (test_env captcha_server [quiz] (grader c)) quiz ?req)
      = Inr (response_shell (test_env captcha_server [quiz] (grader c)) quiz ?req)"
    "complete_fields quiz (response_shell (test_env captcha_server [quiz] (grader c)) quiz ?req)
      = Inr (response_shell (test_env captcha_server [quiz] (grader c)) quiz ?req, [])"
    "FormResponse_init (test_env captcha_server [quiz] (grader c))
        (response_shell (test_env captcha_server [quiz] (grader c)) quiz ?req) = Inr ?doc"
    "execute_unittest (test_env captcha_server [quiz] (grader c)) ?doc quiz
      = Inr [\<lparr>passed = True, return_code = 0, diagnostic = PStr ''c1''\<rparr>,
             \<lparr>passed = (c = 0), return_code = c, diagnostic = PStr ''c2''\<rparr>]" for c
    by (simp_all add: post_eval quiz_def grader_def)
  note g = post_grading_gate[OF stages(1) stages(2) stages(3) stages(4) stages(5) graded stages(6)]
  have a: "post (test_env captcha_server [quiz] (grader 99)) ?req []
      = (Inr \<lparr>content = FailedTests ''failed_tests''
                 [\<lparr>passed = False, return_code = 99, diagnostic = PStr ''c2''\<rparr>],
              status = 500, background = None\<rparr>, [])"
    using g[of 99] by simp
  have b: "post (test_env captcha_server [quiz] (grader 1)) ?req []
      = (Inr \<lparr>content = FailedTests ''failed_tests''
                 [\<lparr>passed = False, return_code = 1, diagnostic = PStr ''c2''\<rparr>],
              status = 403, background = None\<rparr>, [])"
    using g[of 1] by simp
  have c: "post (test_env captcha_server [quiz] (grader 0)) ?req []
      = (Inr \<lparr>content = Submitted quiz ?doc, status = 200, background = None\<rparr>, [Inserted ?doc])"
    using g[of 0] by (simp add: quiz_def WEBHOOK_ENABLED_def)
  from graded a b c show ?thesis by blast
qed

section \<open>The submission handler: anti-spam block\<close>

lemma map_of_response_shell_antispam:
  "map_of (response_shell e form req) ''antispam'' = map_of (json_body req) ''antispam''"
  by (simp add: response_shell_def request_data_def update_conv')

lemma antispam_enrichment_block:
  "antispam_enrichment e form req data response w = (Inr response1, w1) \<Longrightarrow>
     (if DISABLE_ANTISPAM \<notin> set (f_features form)
      then \<exists>d. map_of response1 ''antispam'' = Some (PDict d)
      else map_of response1 ''antispam'' = map_of response ''antispam'')"
  by (auto simp: antispam_enrichment_def Let_def update_conv'
           split: if_splits option.splits sum.splits pyval.splits)

lemma login_gate_antispam:
  "login_gate form req response1 = Inr response2 \<Longrightarrow>
     map_of response2 ''antispam'' = map_of response1 ''antispam''"
  by (auto simp: login_gate_def update_conv' split: if_splits acting_user.splits)

lemma complete_fields_antispam:
  "complete_fields form response2 = Inr (response3, missing) \<Longrightarrow>
     map_of response3 ''antispam'' = map_of response2 ''antispam''"
  by (auto simp: complete_fields_def update_conv' split: if_splits sum.splits pyval.splits prod.splits)

lemma FormResponse_init_antispam:
  "FormResponse_init e d = Inr doc \<Longrightarrow> as_antispam (map_of d ''antispam'') = Some (r_antispam doc)"
  by (auto simp: FormResponse_init_def split: prod.splits option.splits)

lemma as_antispam_dict: "as_antispam (Some (PDict d)) = Some a \<Longrightarrow> a \<noteq> None"
  by (auto split: prod.splits option.splits)

text \<open>
  When the submitted body has no key \<open>antispam\<close>, the persisted response has an antispam
  block exactly if the form does not disable anti-spam.
\<close>

lemma post_antispam_block:
  assumes p: "post e req w = (Inr r, w')" and c: "content r = Submitted form doc"
    and nokey: "map_of (json_body req) ''antispam'' = None"
  shows "(r_antispam doc \<noteq> None) = (DISABLE_ANTISPAM \<notin> set (f_features form))"
proof -
  from post_success[OF p c] obtain response1 w1 response2 response3 where
    spam: "antispam_enrichment e form req (request_data req) (response_shell e form req) w
              = (Inr response1, w1)"
    and login: "login_gate form req response1 = Inr response2"
    and cf: "complete_fields form response2 = Inr (response3, [])"
    and init: "FormResponse_init e response3 = Inr doc"
    by blast
  have m3: "map_of response3 ''antispam'' = map_of response1 ''antispam''"
    using complete_fields_antispam[OF cf] login_gate_antispam[OF login] by simp
  show ?thesis
  proof (cases "DISABLE_ANTISPAM \<in> set (f_features form)")
    case True
    then have "map_of response1 ''antispam'' = None"
      using antispam_enrichment_block[OF spam] map_of_response_shell_antispam nokey by simp
    with FormResponse_init_antispam[OF init] m3 True show ?thesis by simp
  next
    case False
    then obtain d where "map_of response1 ''antispam'' = Some (PDict d)"
      using antispam_enrichment_block[OF spam] by auto
    with FormResponse_init_antispam[OF init] m3 False as_antispam_dict show ?thesis by metis
  qed
qed

text \<open>
  C6. The form Survey disables anti-spam. A submission whose body carries a key
  \<open>antispam\<close> of its own is persisted with that block: the handler copies the body into the
  response and only overwrites \<open>timestamp\<close>, \<open>id\<close> and \<open>form_id\<close>.
\<close>

theorem post_keeps_submitted_antispam:
  "DISABLE_ANTISPAM \<in> set (f_features survey)
   \<and> post (test_env captcha_server [survey] no_grader)
       (submission ''survey''
          [(''response'', PDict []),
           (''antispam'', PDict [(''ip_hash'', PStr ''forged''), (''user_agent_hash'', PStr ''forged''),
                                (''captcha_pass'', PBool True)])] Anonymous) []
     = (Inr \<lparr>content = Submitted survey
               \<lparr>r_id = ''uuid-1'', r_user = None,
                r_antispam = Some \<lparr>ip_hash = ''forged'', user_agent_hash = ''forged'',
                                    captcha_pass = True\<rparr>,
                r_response = [], r_form_id = ''survey'', r_timestamp = ''2021-01-01T00:00:00''\<rparr>,
             status = 200,
             background = Some (BackgroundTask survey
               \<lparr>r_id = ''uuid-1'', r_user = None,
                r_antispam = Some \<lparr>ip_hash = ''forged'', user_agent_hash = ''forged'',
                                    captcha_pass = True\<rparr>,
                r_response = [], r_form_id = ''survey'', r_timestamp = ''2021-01-01T00:00:00''\<rparr>
               Anonymous)\<rparr>,
        [Inserted \<lparr>r_id = ''uuid-1'', r_user = None,
                r_antispam = Some \<lparr>ip_hash = ''forged'', user_agent_hash = ''forged'',
                                    captcha_pass = True\<rparr>,
                r_response = [], r_form_id = ''survey'', r_timestamp = ''2021-01-01T00:00:00''\<rparr>])"
  by (simp add: post_eval survey_def no_grader_def)

section \<open>The submission handler: webhook scheduling\<close>

text \<open>
  C7, as stated, fails: the form Unhooked has the feature \<open>WEBHOOK_ENABLED\<close> and no
  webhook configuration; the handler answers 200 and schedules the notification, and the
  scheduled task ends in \<open>ValueError("Got empty webhook.")\<close>.
\<close>

theorem post_schedules_webhook_counterexample:
  "WEBHOOK_ENABLED \<in> set (f_features unhooked) \<and> f_webhook unhooked = None
   \<and> post (test_env captcha_server [unhooked] no_grader)
       (submission ''unhooked'' [(''response'', PDict [])] Anonymous) []
     = (Inr \<lparr>content = Submitted unhooked
               \<lparr>r_id = ''uuid-1'', r_user = None, r_antispam = None, r_response = [],
                r_form_id = ''unhooked'', r_timestamp = ''2021-01-01T00:00:00''\<rparr>,
             status = 200,
             background = Some (BackgroundTask unhooked
               \<lparr>r_id = ''uuid-1'', r_user = None, r_antispam = None, r_response = [],
                r_form_id = ''unhooked'', r_timestamp = ''2021-01-01T00:00:00''\<rparr> Anonymous)\<rparr>,
        [Inserted \<lparr>r_id = ''uuid-1'', r_user = None, r_antispam = None, r_response = [],
                   r_form_id = ''unhooked'', r_timestamp = ''2021-01-01T00:00:00''\<rparr>])
   \<and> run_background (test_env captcha_server [unhooked] no_grader)
       (BackgroundTask unhooked
          \<lparr>r_id = ''uuid-1'', r_user = None, r_antispam = None, r_response = [],
           r_form_id = ''unhooked'', r_timestamp = ''2021-01-01T00:00:00''\<rparr> Anonymous)
       [Inserted \<lparr>r_id = ''uuid-1'', r_user = None, r_antispam = None, r_response = [],
                  r_form_id = ''unhooked'', r_timestamp = ''2021-01-01T00:00:00''\<rparr>]
     = (Inl (ValueError ''Got empty webhook.''),
        [Inserted \<lparr>r_id = ''uuid-1'', r_user = None, r_antispam = None, r_response = [],
                   r_form_id = ''unhooked'', r_timestamp = ''2021-01-01T00:00:00''\<rparr>])"
  by (simp add: post_eval unhooked_def no_grader_def SubmitForm_send_submission_webhook_def)

text \<open>
  C7 (amended). The handler schedules the webhook notification exactly for a successful
  submission to a form whose feature list contains \<open>WEBHOOK_ENABLED\<close>; it does not look at
  the webhook configuration. The scheduled notification ends in
  \<open>ValueError("Got empty webhook.")\<close>, with nothing sent, exactly when the form has no
  webhook configuration.
\<close>

theorem post_schedules_webhook:
  assumes p: "post e req w = (Inr r, w')"
  shows "(\<forall>task. background r = Some task \<longrightarrow>
            (\<exists>form doc. find_one (db_forms e) (path_form_id req) = Some form
                \<and> content r = Submitted form doc
                \<and> task = BackgroundTask form doc (user req)
                \<and> WEBHOOK_ENABLED \<in> set (f_features form)
                \<and> (\<forall>v. (run_background e task v = (Inl (ValueError ''Got empty webhook.''), v))
                          = (f_webhook form = None))))
       \<and> (\<forall>form doc. content r = Submitted form doc \<and> WEBHOOK_ENABLED \<in> set (f_features form)
              \<longrightarrow> background r = Some (BackgroundTask form doc (user req)))"
proof -
  have rb: "\<And>form doc u v. (SubmitForm_send_submission_webhook e form doc u v
                  = (Inl (ValueError ''Got empty webhook.''), v)) = (f_webhook form = None)"
    by (auto simp: SubmitForm_send_submission_webhook_def Let_def split: option.splits sum.splits)
  have bg: "background r \<noteq> None \<Longrightarrow> \<exists>form doc. content r = Submitted form doc"
    using p
    apply (simp add: post_def Let_def split: option.splits prod.splits sum.splits if_splits py_error.splits step.splits)
    apply (auto dest!: login_gate_status run_unittests_status)
    done
  show ?thesis
  proof (intro conjI allI impI)
    fix task assume t: "background r = Some task"
    then obtain form doc where c: "content r = Submitted form doc" using bg by auto
    from post_success[OF p c] t rb[of form doc "user req"] show "\<exists>form doc. find_one (db_forms e) (path_form_id req) = Some form
                \<and> content r = Submitted form doc
                \<and> task = BackgroundTask form doc (user req)
                \<and> WEBHOOK_ENABLED \<in> set (f_features form)
                \<and> (\<forall>v. (run_background e task v = (Inl (ValueError ''Got empty webhook.''), v))
                          = (f_webhook form = None))"
      by (auto split: if_splits)
  next
    fix form doc assume "content r = Submitted form doc \<and> WEBHOOK_ENABLED \<in> set (f_features form)"
    with post_success[OF p] show "background r = Some (BackgroundTask form doc (user req))"
      by auto
  qed
qed

theorem post_schedules_webhook_witness:
  "post (test_env captcha_server [survey] no_grader)
     (submission ''survey'' [(''response'', PDict [])] Anonymous) []
     = (Inr \<lparr>content = Submitted survey survey_response, status = 200,
             background = Some (BackgroundTask survey survey_response Anonymous)\<rparr>,
        [Inserted survey_response])
   \<and> WEBHOOK_ENABLED \<in> set (f_features survey)
   \<and> f_webhook survey = Some survey_hook
   \<and> run_background (test_env captcha_server [survey] no_grader)
        (BackgroundTask survey survey_response Anonymous) [Inserted survey_response]
       \<noteq> (Inl (ValueError ''Got empty webhook.''), [Inserted survey_response])"
proof -
  have p: "post (test_env captcha_server [survey] no_grader)
             (submission ''survey'' [(''response'', PDict [])] Anonymous) []
           = (Inr \<lparr>content = Submitted survey survey_response, status = 200,
                   background = Some (BackgroundTask survey survey_response Anonymous)\<rparr>,
              [Inserted survey_response])"
    by (simp add: post_eval survey_def survey_response_def no_grader_def)
  have bg: "background \<lparr>content = Submitted survey survey_response, status = 200,
                   background = Some (BackgroundTask survey survey_response Anonymous)\<rparr>
              = Some (BackgroundTask survey survey_response Anonymous)" by simp
  have wh: "f_webhook survey = Some survey_hook" by (simp add: survey_def)
  from post_schedules_webhook[OF p] bg wh
  have "WEBHOOK_ENABLED \<in> set (f_features survey)
        \<and> run_background (test_env captcha_server [survey] no_grader)
        (BackgroundTask survey survey_response Anonymous) [Inserted survey_response]
       \<noteq> (Inl (ValueError ''Got empty webhook.''), [Inserted survey_response])"
    by auto
  with p wh show ?thesis by simp
qed

end
